theory Spec2Isabelle
  imports Complex_Main "HOL-Library.Sublist"
begin

section \<open>Values, errors and the conversions of the value package\<close>

text \<open>
  A Go string is modelled by the sequence of its runes (Unicode code points), which is
  what \<^verbatim>\<open>[]rune(s)\<close> yields for well-formed UTF-8 text; \<^verbatim>\<open>string(runes)\<close> is then the
  identity. Where the source works on the bytes of a string, the UTF-8 encoding
  \<open>utf8\<close> below is applied. Names of functions and messages of errors are plain
  Isabelle strings.
\<close>

type_synonym rune = nat
type_synonym gostring = "rune list"

definition S :: "string \<Rightarrow> gostring" where
  "S cs = map of_char cs"

text \<open>
  IEEE binary64 values: the finite ones by their exact value, and the three
  special values. The sign of zero is not represented.
\<close>

datatype float64 = Finite real | PosInf | NegInf | NaN

datatype ternary = TRUE | FALSE | UNKNOWN

record datetime =
  year :: int
  month :: int
  day :: int
  hour :: int
  minute :: int
  second :: int
  nanosecond :: int
  location :: string

datatype primary =
    Null
  | Boolean bool
  | Ternary ternary
  | Integer int
  | Float float64
  | Datetime datetime
  | String gostring

datatype error =
    FunctionArgumentLengthError string "nat list"
  | FunctionInvalidArgumentError string string
  | Panic string

text \<open>
  int64 arithmetic: values are mathematical integers and \<open>int64\<close> wraps a result
  into the range of a signed 64-bit integer, as Go's \<^verbatim>\<open>+\<close> and \<^verbatim>\<open>-\<close> do. Go's
  \<^verbatim>\<open>int\<close> is taken to be 64 bits wide.
\<close>

definition int64 :: "int \<Rightarrow> int" where
  "int64 x = (x + 2 ^ 63) mod 2 ^ 64 - 2 ^ 63"

definition is_int64 :: "int \<Rightarrow> bool" where
  "is_int64 x = (- (2 ^ 63) \<le> x \<and> x < 2 ^ 63)"

text \<open>
  The conversions \<^verbatim>\<open>value.ToString\<close>, \<^verbatim>\<open>value.ToInteger\<close>, \<^verbatim>\<open>value.ToFloat\<close>,
  \<^verbatim>\<open>value.ToBoolean\<close> and \<^verbatim>\<open>value.ToDatetime\<close> live in lib/value, which is not among
  the sources. Each returns either Null or a value of the target type, so each is a
  parameter of the model with an option result: \<open>None\<close> is Null, \<open>Some x\<close> is the
  converted value whose \<^verbatim>\<open>Raw()\<close> is \<open>x\<close>.
\<close>

record converter =
  ToString :: "primary \<Rightarrow> gostring option"
  ToInteger :: "primary \<Rightarrow> int option"
  ToFloat :: "primary \<Rightarrow> float64 option"
  ToBoolean :: "primary \<Rightarrow> bool option"
  ToDatetime :: "primary \<Rightarrow> datetime option"

text \<open>
  Modelled from the spec: the conversions of lib/value (not under src/). The spec says
  that they "are explicit and null-propagating" and "return Null on failure". This
  instance converts a value that already has the target type to itself and fails on
  everything else, Null included; the real conversions accept more inputs (numeric
  strings, for instance). It is only used to instantiate theorems that hold for every
  converter.
\<close>

definition strict_conv :: converter where
  "strict_conv = \<lparr>
     ToString = (\<lambda>p. case p of String s \<Rightarrow> Some s | _ \<Rightarrow> None),
     ToInteger = (\<lambda>p. case p of Integer i \<Rightarrow> Some i | _ \<Rightarrow> None),
     ToFloat = (\<lambda>p. case p of Float f \<Rightarrow> Some f | _ \<Rightarrow> None),
     ToBoolean = (\<lambda>p. case p of Boolean b \<Rightarrow> Some b | _ \<Rightarrow> None),
     ToDatetime = (\<lambda>p. case p of Datetime d \<Rightarrow> Some d | _ \<Rightarrow> None) \<rparr>"

section \<open>SUBSTR\<close>

text \<open>
  The slice expression \<^verbatim>\<open>runes[lo:hi]\<close> of Go: it panics unless
  \<open>0 \<le> lo \<le> hi \<le> len\<close>.
\<close>

definition slice :: "'a list \<Rightarrow> int \<Rightarrow> int \<Rightarrow> error + 'a list" where
  "slice xs lo hi =
     (if 0 \<le> lo \<and> lo \<le> hi \<and> hi \<le> int (length xs)
      then Inr (take (nat (hi - lo)) (drop (nat lo) xs))
      else Inl (Panic ''slice bounds out of range''))"

definition Substr :: "converter \<Rightarrow> string \<Rightarrow> primary list \<Rightarrow> error + primary" where
  "Substr cv fn args =
     (if length args < 2 \<or> 3 < length args
      then Inl (FunctionArgumentLengthError fn [2, 3])
      else case ToString cv (args ! 0) of
        None \<Rightarrow> Inr Null
      | Some runes \<Rightarrow>
          let strlen = int (length runes) in
          case ToInteger cv (args ! 1) of
            None \<Rightarrow> Inr Null
          | Some i \<Rightarrow>
              let start = (if i < 0 then int64 (strlen + i) else i) in
              if start < 0 \<or> strlen \<le> start then Inr Null
              else if length args = 3 then
                (case ToInteger cv (args ! 2) of
                   None \<Rightarrow> Inr Null
                 | Some sublen \<Rightarrow>
                     if sublen < 0 then Inr Null
                     else
                       let end0 = int64 (start + sublen);
                           end1 = (if strlen < end0 then strlen else end0)
                       in map_sum id String (slice runes start end1))
              else map_sum id String (slice runes start strlen))"

text \<open>
  Two assumptions about the conversions that the theorems name: a Null stays Null
  under every conversion, and for the arguments at hand an Integer holds an int64 and
  a string has fewer than \<open>2^63\<close> runes.
\<close>

definition null_propagating :: "converter \<Rightarrow> bool" where
  "null_propagating cv =
     (ToString cv Null = None \<and> ToInteger cv Null = None \<and> ToFloat cv Null = None \<and>
      ToBoolean cv Null = None \<and> ToDatetime cv Null = None)"

definition well_ranged :: "converter \<Rightarrow> primary list \<Rightarrow> bool" where
  "well_ranged cv args =
     (\<forall>p \<in> set args.
        (\<forall>i. ToInteger cv p = Some i \<longrightarrow> is_int64 i) \<and>
        (\<forall>s. ToString cv p = Some s \<longrightarrow> int (length s) < 2 ^ 63))"

section \<open>INSTR\<close>

text \<open>
  The bytes of a string: the UTF-8 encoding of its runes, as Go stores a string. A
  surrogate or a value above \<open>0x10FFFF\<close> is encoded as U+FFFD.
\<close>

definition utf8_rune :: "rune \<Rightarrow> nat list" where
  "utf8_rune r =
     (if r < 0x80 then [r]
      else if r < 0x800 then [0xC0 + r div 64, 0x80 + r mod 64]
      else if (0xD800 \<le> r \<and> r < 0xE000) \<or> 0x10FFFF < r then [0xEF, 0xBF, 0xBD]
      else if r < 0x10000 then
        [0xE0 + r div 4096, 0x80 + (r div 64) mod 64, 0x80 + r mod 64]
      else
        [0xF0 + r div 262144, 0x80 + (r div 4096) mod 64, 0x80 + (r div 64) mod 64,
         0x80 + r mod 64])"

definition utf8 :: "gostring \<Rightarrow> nat list" where
  "utf8 s = concat (map utf8_rune s)"

text \<open>
  \<^verbatim>\<open>strings.Index(s, substr)\<close> of Go's standard library, on bytes: the index of the
  first instance of \<open>substr\<close> in \<open>s\<close>, or \<open>-1\<close>.
\<close>

fun index_from :: "nat list \<Rightarrow> nat list \<Rightarrow> nat \<Rightarrow> int" where
  "index_from [] sub k = (if sub = [] then int k else - 1)"
| "index_from (x # xs) sub k =
     (if prefix sub (x # xs) then int k else index_from xs sub (Suc k))"

definition Index :: "nat list \<Rightarrow> nat list \<Rightarrow> int" where
  "Index s sub = index_from s sub 0"

definition Instr :: "converter \<Rightarrow> string \<Rightarrow> primary list \<Rightarrow> error + primary" where
  "Instr cv fn args =
     (if length args < 2 \<or> 2 < length args
      then Inl (FunctionArgumentLengthError fn [2])
      else case ToString cv (args ! 0) of
        None \<Rightarrow> Inr Null
      | Some s \<Rightarrow>
          (case ToString cv (args ! 1) of
             None \<Rightarrow> Inr Null
           | Some substr \<Rightarrow>
               let index = Index (utf8 s) (utf8 substr) in
               if index < 0 then Inr Null else Inr (Integer index)))"

text \<open>\<open>sub\<close> occurs in \<open>s\<close> at offset \<open>k\<close>.\<close>

definition occurs_at :: "'a list \<Rightarrow> 'a list \<Rightarrow> nat \<Rightarrow> bool" where
  "occurs_at sub s k = (k \<le> length s \<and> prefix sub (drop k s))"

section \<open>TRUNC_TIME and the other date truncations\<close>

text \<open>
  \<^verbatim>\<open>time.Date(y, m, d, hour, min, sec, nsec, loc)\<close> of Go's standard library, for fields
  that are in range: the time with these civil fields in that location, when that
  wall-clock time exists there. A wall-clock time that a zone transition of the
  location skips does not exist, and \<^verbatim>\<open>time.Date\<close> returns a time next to the
  transition instead. The zone data is a parameter: the wall-clock times that are
  skipped, each with its location, and the time returned for a skipped one.
  (The normalisation of fields out of range is not represented: the callers here pass
  the date of an existing time and zeros.) \<^verbatim>\<open>t.Date()\<close> and \<^verbatim>\<open>t.Location()\<close> read the
  fields.
\<close>

record zoneinfo =
  skipped :: "datetime \<Rightarrow> bool"
  resolve_skipped :: "datetime \<Rightarrow> datetime"

definition time_Date ::
  "zoneinfo \<Rightarrow> int \<Rightarrow> int \<Rightarrow> int \<Rightarrow> int \<Rightarrow> int \<Rightarrow> int \<Rightarrow> int \<Rightarrow> string \<Rightarrow> datetime" where
  "time_Date tz y m d h mi s ns loc =
     (let t = \<lparr>year = y, month = m, day = d, hour = h, minute = mi, second = s,
                nanosecond = ns, location = loc\<rparr>
      in if skipped tz t then resolve_skipped tz t else t)"

definition truncateDate ::
  "zoneinfo \<Rightarrow> converter \<Rightarrow> string \<Rightarrow> primary list \<Rightarrow> nat \<Rightarrow> error + primary" where
  "truncateDate tz cv fn args place =
     (if length args \<noteq> 1 then Inl (FunctionArgumentLengthError fn [1])
      else case ToDatetime cv (args ! 0) of
        None \<Rightarrow> Inr Null
      | Some t \<Rightarrow>
          let y = year t; m = month t; d = day t;
              d' = (if place = 1 \<or> place = 2 then 1 else d);
              m' = (if place = 2 then 1 else m)
          in Inr (Datetime (time_Date tz y m' d' 0 0 0 0 (location t))))"

definition TruncMonth :: "zoneinfo \<Rightarrow> converter \<Rightarrow> string \<Rightarrow> primary list \<Rightarrow> error + primary" where
  "TruncMonth tz cv fn args = truncateDate tz cv fn args 2"

definition TruncDay :: "zoneinfo \<Rightarrow> converter \<Rightarrow> string \<Rightarrow> primary list \<Rightarrow> error + primary" where
  "TruncDay tz cv fn args = truncateDate tz cv fn args 1"

definition TruncTime :: "zoneinfo \<Rightarrow> converter \<Rightarrow> string \<Rightarrow> primary list \<Rightarrow> error + primary" where
  "TruncTime tz cv fn args = truncateDate tz cv fn args 0"

text \<open>
  An instance of the zone data, for examples. In America/Sao_Paulo the clocks went
  from 00:00 to 01:00 on 2018-11-04, so the wall-clock times of the hour from 00:00 of
  that day are skipped there; for such a time \<^verbatim>\<open>time.Date\<close> returns the time with the
  same minutes in the hour before the transition, from 23:00 of the day before. No
  other wall-clock time is skipped in this instance.
\<close>

definition sample_zones :: zoneinfo where
  "sample_zones = \<lparr>
     skipped = (\<lambda>t. location t = ''America/Sao_Paulo'' \<and> year t = 2018 \<and> month t = 11 \<and>
                     day t = 4 \<and> hour t = 0),
     resolve_skipped = (\<lambda>t. t\<lparr>day := 3, hour := 23\<rparr>) \<rparr>"

section \<open>RAND\<close>

text \<open>
  The random source \<^verbatim>\<open>cmd.GetRand()\<close> is a parameter: \<open>Float64\<close> is what
  \<^verbatim>\<open>r.Float64()\<close> returns and \<open>draw n\<close> is what \<^verbatim>\<open>r.Int63n(n)\<close> returns for a
  positive \<open>n\<close>. \<^verbatim>\<open>Int63n\<close> of math/rand panics when \<open>n \<le> 0\<close>. Its contract, for a
  positive \<open>n\<close>, is a result in \<open>[0, n)\<close>, and that of \<^verbatim>\<open>Float64\<close> a result in
  \<open>[0, 1)\<close>.
\<close>

record rand =
  Float64 :: float64
  draw :: "int \<Rightarrow> int"

definition Int63n :: "rand \<Rightarrow> int \<Rightarrow> error + int" where
  "Int63n r n =
     (if n \<le> 0 then Inl (Panic ''invalid argument to Int63n'') else Inr (draw r n))"

definition rand_contract :: "rand \<Rightarrow> bool" where
  "rand_contract r =
     ((\<exists>x. Float64 r = Finite x \<and> 0 \<le> x \<and> x < 1) \<and>
      (\<forall>n. 0 < n \<longrightarrow> 0 \<le> draw r n \<and> draw r n < n))"

definition Rand :: "rand \<Rightarrow> converter \<Rightarrow> string \<Rightarrow> primary list \<Rightarrow> error + primary" where
  "Rand r cv fn args =
     (if 0 < length args \<and> length args \<noteq> 2
      then Inl (FunctionArgumentLengthError fn [0, 2])
      else if length args = 0 then Inr (Float (Float64 r))
      else case ToInteger cv (args ! 0) of
        None \<Rightarrow> Inl (FunctionInvalidArgumentError fn ''the first argument must be an integer'')
      | Some low \<Rightarrow>
          (case ToInteger cv (args ! 1) of
             None \<Rightarrow>
               Inl (FunctionInvalidArgumentError fn ''the second argument must be an integer'')
           | Some high \<Rightarrow>
               if high \<le> low
               then Inl (FunctionInvalidArgumentError fn
                      ''the second argument must be greater than the first argument'')
               else
                 let delta = int64 (int64 (high - low) + 1) in
                 case Int63n r delta of
                   Inl e \<Rightarrow> Inl e
                 | Inr v \<Rightarrow> Inr (Integer (int64 (v + low)))))"

section \<open>float64 arithmetic\<close>

text \<open>
  The basic operations of IEEE 754 binary64 with the default rounding: the exact
  result, rounded to the nearest representable value, ties to the even significand.
  \<open>fl\<close> is that rounding: 53 bits of precision, exponents from \<open>-1022\<close>, gradual
  underflow below, and overflow to an infinity from \<open>2^1024 - 2^970\<close> on.
\<close>

definition pow2 :: "int \<Rightarrow> real" where
  "pow2 e = (if 0 \<le> e then 2 ^ nat e else 1 / 2 ^ nat (- e))"

function bitlen :: "nat \<Rightarrow> nat" where
  "bitlen n = (if n = 0 then 0 else Suc (bitlen (n div 2)))"
  by pat_completeness auto
termination
  by (relation "measure id") auto

declare bitlen.simps [simp del]

text \<open>\<open>ilog2 x\<close> is \<open>\<lfloor>log\<^sub>2 x\<rfloor>\<close> for a positive \<open>x\<close>.\<close>

definition ilog2 :: "real \<Rightarrow> int" where
  "ilog2 x =
     (if 1 \<le> x then int (bitlen (nat \<lfloor>x\<rfloor>)) - 1
      else - int (bitlen (nat (\<lceil>1 / x\<rceil> - 1))))"

definition round_even :: "real \<Rightarrow> int" where
  "round_even q =
     (let f = \<lfloor>q\<rfloor>; d = q - of_int f
      in if d < 1 / 2 then f
         else if 1 / 2 < d then f + 1
         else if even f then f else f + 1)"

definition fl :: "real \<Rightarrow> float64" where
  "fl x =
     (if x = 0 then Finite 0
      else
        let e = max (ilog2 \<bar>x\<bar>) (- 1022);
            u = pow2 (e - 52);
            r = of_int (round_even (x / u)) * u
        in if pow2 1024 \<le> \<bar>r\<bar> then (if 0 < x then PosInf else NegInf) else Finite r)"

definition fsign :: "float64 \<Rightarrow> int" where
  "fsign x =
     (case x of Finite a \<Rightarrow> (if a < 0 then - 1 else if a = 0 then 0 else 1)
      | PosInf \<Rightarrow> 1 | NegInf \<Rightarrow> - 1 | NaN \<Rightarrow> 0)"

definition inf_of :: "int \<Rightarrow> float64" where
  "inf_of s = (if s = 0 then NaN else if 0 < s then PosInf else NegInf)"

definition fmul :: "float64 \<Rightarrow> float64 \<Rightarrow> float64" where
  "fmul x y =
     (if x = NaN \<or> y = NaN then NaN
      else case (x, y) of
        (Finite a, Finite b) \<Rightarrow> fl (a * b)
      | _ \<Rightarrow> inf_of (fsign x * fsign y))"

text \<open>A zero divisor is the positive zero here: the sign of zero is not represented.\<close>

definition fdiv :: "float64 \<Rightarrow> float64 \<Rightarrow> float64" where
  "fdiv x y =
     (if x = NaN \<or> y = NaN then NaN
      else case (x, y) of
        (Finite a, Finite b) \<Rightarrow> (if b = 0 then inf_of (fsign x) else fl (a / b))
      | (Finite a, _) \<Rightarrow> Finite 0
      | (_, Finite b) \<Rightarrow> inf_of (fsign x * (if b < 0 then - 1 else 1))
      | _ \<Rightarrow> NaN)"

definition fadd :: "float64 \<Rightarrow> float64 \<Rightarrow> float64" where
  "fadd x y =
     (if x = NaN \<or> y = NaN then NaN
      else case (x, y) of
        (Finite a, Finite b) \<Rightarrow> fl (a + b)
      | (Finite a, _) \<Rightarrow> y
      | (_, Finite b) \<Rightarrow> x
      | _ \<Rightarrow> (if x = y then x else NaN))"

definition fneg :: "float64 \<Rightarrow> float64" where
  "fneg x = (case x of Finite a \<Rightarrow> Finite (- a) | PosInf \<Rightarrow> NegInf | NegInf \<Rightarrow> PosInf | NaN \<Rightarrow> NaN)"

definition fsub :: "float64 \<Rightarrow> float64 \<Rightarrow> float64" where
  "fsub x y = fadd x (fneg y)"

text \<open>The comparison \<^verbatim>\<open>f < 0\<close>: false for NaN.\<close>

definition flt0 :: "float64 \<Rightarrow> bool" where
  "flt0 x = (case x of Finite a \<Rightarrow> a < 0 | NegInf \<Rightarrow> True | _ \<Rightarrow> False)"

text \<open>The conversion \<^verbatim>\<open>float64(i)\<close> of an int64.\<close>

definition float64_of_int :: "int \<Rightarrow> float64" where
  "float64_of_int i = fl (of_int i)"

text \<open>Functions of Go's package math on this representation.\<close>

definition math_Floor :: "float64 \<Rightarrow> float64" where
  "math_Floor x = (case x of Finite a \<Rightarrow> Finite (of_int \<lfloor>a\<rfloor>) | _ \<Rightarrow> x)"

definition math_Ceil :: "float64 \<Rightarrow> float64" where
  "math_Ceil x = (case x of Finite a \<Rightarrow> Finite (of_int \<lceil>a\<rceil>) | _ \<Rightarrow> x)"

definition math_Abs :: "float64 \<Rightarrow> float64" where
  "math_Abs x = (case x of Finite a \<Rightarrow> Finite \<bar>a\<bar> | NegInf \<Rightarrow> PosInf | _ \<Rightarrow> x)"

definition math_IsInf :: "float64 \<Rightarrow> bool" where
  "math_IsInf x = (x = PosInf \<or> x = NegInf)"

definition math_IsNaN :: "float64 \<Rightarrow> bool" where
  "math_IsNaN x = (x = NaN)"

text \<open>A result that is infinite or NaN.\<close>

definition nonfinite :: "float64 \<Rightarrow> bool" where
  "nonfinite x = (math_IsInf x \<or> math_IsNaN x)"

text \<open>
  \<^verbatim>\<open>math.Pow(10, y)\<close> for the exponents its callers here pass, which are converted
  integers: the power of ten rounded to the nearest float64. (Go computes the power by
  repeated squaring; that is this value for exponents up to 22 in absolute value, where
  the power or its inverse is exact before the one rounding, and wherever the power
  overflows or underflows; in between the last bit may differ.)
\<close>

definition math_Pow10 :: "float64 \<Rightarrow> float64" where
  "math_Pow10 y =
     (case y of
        Finite p \<Rightarrow> fl (if 0 \<le> p then 10 ^ nat \<lfloor>p\<rfloor> else 1 / 10 ^ nat (- \<lfloor>p\<rfloor>))
      | PosInf \<Rightarrow> PosInf
      | NegInf \<Rightarrow> Finite 0
      | NaN \<Rightarrow> NaN)"

text \<open>
  The other functions of package math that the built-in functions call are parameters.
\<close>

record mathlib =
  math_Acos :: "float64 \<Rightarrow> float64"
  math_Asin :: "float64 \<Rightarrow> float64"
  math_Atan :: "float64 \<Rightarrow> float64"
  math_Atan2 :: "float64 \<Rightarrow> float64 \<Rightarrow> float64"
  math_Cos :: "float64 \<Rightarrow> float64"
  math_Sin :: "float64 \<Rightarrow> float64"
  math_Tan :: "float64 \<Rightarrow> float64"
  math_Exp :: "float64 \<Rightarrow> float64"
  math_Exp2 :: "float64 \<Rightarrow> float64"
  math_Expm1 :: "float64 \<Rightarrow> float64"
  math_Log :: "float64 \<Rightarrow> float64"
  math_Log10 :: "float64 \<Rightarrow> float64"
  math_Log2 :: "float64 \<Rightarrow> float64"
  math_Log1p :: "float64 \<Rightarrow> float64"
  math_Sqrt :: "float64 \<Rightarrow> float64"
  math_Pow :: "float64 \<Rightarrow> float64 \<Rightarrow> float64"

text \<open>
  Modelled from the spec: \<^verbatim>\<open>value.ParseFloat64\<close> (lib/value, not under src/), which
  turns a float64 result into a value. The spec's value domain has Integer and Float,
  and its examples give an integral result as an integer (ROUND(2.5) = 3): a result
  with no fractional part becomes an Integer, every other result stays a Float.
  (A conversion of an integral float64 outside the int64 range is platform dependent
  in Go; this gives the least int64, as amd64 does.)
\<close>

definition ParseFloat64 :: "float64 \<Rightarrow> primary" where
  "ParseFloat64 f =
     (case f of
        Finite x \<Rightarrow>
          if x = of_int \<lfloor>x\<rfloor>
          then Integer (if is_int64 \<lfloor>x\<rfloor> then \<lfloor>x\<rfloor> else - (2 ^ 63))
          else Float f
      | _ \<Rightarrow> Float f)"

section \<open>CEIL, FLOOR, ROUND and the other math functions\<close>

definition roundParams :: "converter \<Rightarrow> primary list \<Rightarrow> float64 \<times> float64 \<times> bool \<times> bool" where
  "roundParams cv args =
     (if length args < 1 \<or> 2 < length args then (Finite 0, Finite 0, False, True)
      else case ToFloat cv (args ! 0) of
        None \<Rightarrow> (Finite 0, Finite 0, True, False)
      | Some number \<Rightarrow>
          if length args = 2 then
            (case ToInteger cv (args ! 1) of
               None \<Rightarrow> (number, Finite 0, True, False)
             | Some i \<Rightarrow> (number, float64_of_int i, False, False))
          else (number, Finite 0, False, False))"

definition Ceil :: "converter \<Rightarrow> string \<Rightarrow> primary list \<Rightarrow> error + primary" where
  "Ceil cv fn args =
     (case roundParams cv args of (number, place, isnull, argsErr) \<Rightarrow>
        if argsErr then Inl (FunctionArgumentLengthError fn [1, 2])
        else if isnull then Inr Null
        else
          let pow = math_Pow10 place;
              r = fdiv (math_Ceil (fmul pow number)) pow
          in Inr (ParseFloat64 r))"

definition Floor :: "converter \<Rightarrow> string \<Rightarrow> primary list \<Rightarrow> error + primary" where
  "Floor cv fn args =
     (case roundParams cv args of (number, place, isnull, argsErr) \<Rightarrow>
        if argsErr then Inl (FunctionArgumentLengthError fn [1, 2])
        else if isnull then Inr Null
        else
          let pow = math_Pow10 place;
              r = fdiv (math_Floor (fmul pow number)) pow
          in Inr (ParseFloat64 r))"

definition round_half :: "float64 \<Rightarrow> float64 \<Rightarrow> float64" where
  "round_half f place =
     (let pow = math_Pow10 place in
      if flt0 f then fdiv (math_Ceil (fsub (fmul pow f) (Finite (1 / 2)))) pow
      else fdiv (math_Floor (fadd (fmul pow f) (Finite (1 / 2)))) pow)"

definition Round :: "converter \<Rightarrow> string \<Rightarrow> primary list \<Rightarrow> error + primary" where
  "Round cv fn args =
     (case roundParams cv args of (number, place, isnull, argsErr) \<Rightarrow>
        if argsErr then Inl (FunctionArgumentLengthError fn [1, 2])
        else if isnull then Inr Null
        else Inr (ParseFloat64 (round_half number place)))"

definition execMath1Arg ::
  "converter \<Rightarrow> string \<Rightarrow> primary list \<Rightarrow> (float64 \<Rightarrow> float64) \<Rightarrow> error + primary" where
  "execMath1Arg cv fn args mathf =
     (if length args \<noteq> 1 then Inl (FunctionArgumentLengthError fn [1])
      else case ToFloat cv (args ! 0) of
        None \<Rightarrow> Inr Null
      | Some f \<Rightarrow>
          let result = mathf f in
          if math_IsInf result \<or> math_IsNaN result then Inr Null
          else Inr (ParseFloat64 result))"

definition execMath2Args ::
  "converter \<Rightarrow> string \<Rightarrow> primary list \<Rightarrow> (float64 \<Rightarrow> float64 \<Rightarrow> float64) \<Rightarrow> error + primary" where
  "execMath2Args cv fn args mathf =
     (if length args \<noteq> 2 then Inl (FunctionArgumentLengthError fn [2])
      else case ToFloat cv (args ! 0) of
        None \<Rightarrow> Inr Null
      | Some f1 \<Rightarrow>
          (case ToFloat cv (args ! 1) of
             None \<Rightarrow> Inr Null
           | Some f2 \<Rightarrow>
               let result = mathf f1 f2 in
               if math_IsInf result \<or> math_IsNaN result then Inr Null
               else Inr (ParseFloat64 result)))"

text \<open>
  The wrappers of \<^verbatim>\<open>execMath1Arg\<close> and \<^verbatim>\<open>execMath2Args\<close>. \<open>Pow_f\<close> is the source's
  \<^verbatim>\<open>Pow\<close>.
\<close>

definition Abs :: "converter \<Rightarrow> string \<Rightarrow> primary list \<Rightarrow> error + primary" where
  "Abs cv fn args = execMath1Arg cv fn args math_Abs"

definition Acos :: "mathlib \<Rightarrow> converter \<Rightarrow> string \<Rightarrow> primary list \<Rightarrow> error + primary" where
  "Acos ml cv fn args = execMath1Arg cv fn args (math_Acos ml)"

definition Asin :: "mathlib \<Rightarrow> converter \<Rightarrow> string \<Rightarrow> primary list \<Rightarrow> error + primary" where
  "Asin ml cv fn args = execMath1Arg cv fn args (math_Asin ml)"

definition Atan :: "mathlib \<Rightarrow> converter \<Rightarrow> string \<Rightarrow> primary list \<Rightarrow> error + primary" where
  "Atan ml cv fn args = execMath1Arg cv fn args (math_Atan ml)"

definition Atan2 :: "mathlib \<Rightarrow> converter \<Rightarrow> string \<Rightarrow> primary list \<Rightarrow> error + primary" where
  "Atan2 ml cv fn args = execMath2Args cv fn args (math_Atan2 ml)"

definition Cos :: "mathlib \<Rightarrow> converter \<Rightarrow> string \<Rightarrow> primary list \<Rightarrow> error + primary" where
  "Cos ml cv fn args = execMath1Arg cv fn args (math_Cos ml)"

definition Sin :: "mathlib \<Rightarrow> converter \<Rightarrow> string \<Rightarrow> primary list \<Rightarrow> error + primary" where
  "Sin ml cv fn args = execMath1Arg cv fn args (math_Sin ml)"

definition Tan :: "mathlib \<Rightarrow> converter \<Rightarrow> string \<Rightarrow> primary list \<Rightarrow> error + primary" where
  "Tan ml cv fn args = execMath1Arg cv fn args (math_Tan ml)"

definition Exp :: "mathlib \<Rightarrow> converter \<Rightarrow> string \<Rightarrow> primary list \<Rightarrow> error + primary" where
  "Exp ml cv fn args = execMath1Arg cv fn args (math_Exp ml)"

definition Exp2 :: "mathlib \<Rightarrow> converter \<Rightarrow> string \<Rightarrow> primary list \<Rightarrow> error + primary" where
  "Exp2 ml cv fn args = execMath1Arg cv fn args (math_Exp2 ml)"

definition Expm1 :: "mathlib \<Rightarrow> converter \<Rightarrow> string \<Rightarrow> primary list \<Rightarrow> error + primary" where
  "Expm1 ml cv fn args = execMath1Arg cv fn args (math_Expm1 ml)"

definition MathLog :: "mathlib \<Rightarrow> converter \<Rightarrow> string \<Rightarrow> primary list \<Rightarrow> error + primary" where
  "MathLog ml cv fn args = execMath1Arg cv fn args (math_Log ml)"

definition Log10 :: "mathlib \<Rightarrow> converter \<Rightarrow> string \<Rightarrow> primary list \<Rightarrow> error + primary" where
  "Log10 ml cv fn args = execMath1Arg cv fn args (math_Log10 ml)"

definition Log2 :: "mathlib \<Rightarrow> converter \<Rightarrow> string \<Rightarrow> primary list \<Rightarrow> error + primary" where
  "Log2 ml cv fn args = execMath1Arg cv fn args (math_Log2 ml)"

definition Log1p :: "mathlib \<Rightarrow> converter \<Rightarrow> string \<Rightarrow> primary list \<Rightarrow> error + primary" where
  "Log1p ml cv fn args = execMath1Arg cv fn args (math_Log1p ml)"

definition Sqrt :: "mathlib \<Rightarrow> converter \<Rightarrow> string \<Rightarrow> primary list \<Rightarrow> error + primary" where
  "Sqrt ml cv fn args = execMath1Arg cv fn args (math_Sqrt ml)"

definition Pow_f :: "mathlib \<Rightarrow> converter \<Rightarrow> string \<Rightarrow> primary list \<Rightarrow> error + primary" where
  "Pow_f ml cv fn args = execMath2Args cv fn args (math_Pow ml)"

section \<open>LPAD and RPAD\<close>

datatype Direction = RightDirection | LeftDirection

datatype PaddingType = PaddingRuneCount | PaddingByteCount | PaddingWidth

datatype encoding = UTF8 | SJIS

text \<open>
  The text functions that come from outside the sources are parameters:
  \<^verbatim>\<open>strings.ToUpper\<close> of Go's standard library, which maps every letter of Unicode,
  \<^verbatim>\<open>text.RuneByteSize(r, enc)\<close> of go-text, \<^verbatim>\<open>cmd.RuneWidth(r)\<close>, which reads the session
  flags, and \<^verbatim>\<open>cmd.ParseEncoding\<close>. The size of a string, \<^verbatim>\<open>text.ByteSize(s, enc)\<close> and
  \<^verbatim>\<open>cmd.TextWidth(s)\<close>, is the sum of the sizes of its runes.
\<close>

record textenv =
  ToUpper :: "gostring \<Rightarrow> gostring"
  RuneByteSize :: "rune \<Rightarrow> encoding \<Rightarrow> nat"
  RuneWidth :: "rune \<Rightarrow> nat"
  ParseEncoding :: "gostring \<Rightarrow> string + encoding"

definition ByteSize :: "textenv \<Rightarrow> gostring \<Rightarrow> encoding \<Rightarrow> int" where
  "ByteSize te s enc = int (sum_list (map (\<lambda>r. RuneByteSize te r enc) s))"

definition TextWidth :: "textenv \<Rightarrow> gostring \<Rightarrow> int" where
  "TextWidth te s = int (sum_list (map (RuneWidth te) s))"

definition RuneCountInString :: "gostring \<Rightarrow> int" where
  "RuneCountInString s = int (length s)"

text \<open>
  The loop over the runes of the repeated pad string, for the byte and width metrics:
  \<open>l\<close> is the size taken so far and \<open>buf\<close> the runes taken. \<open>None\<close> is the return
  with the error from inside the loop.
\<close>

fun pad_loop :: "(rune \<Rightarrow> nat) \<Rightarrow> int \<Rightarrow> int \<Rightarrow> rune list \<Rightarrow> rune list \<Rightarrow> rune list option" where
  "pad_loop w padLen l buf [] = Some buf"
| "pad_loop w padLen l buf (r # rs) =
     (let l' = l + int (w r); buf' = buf @ [r]
      in if padLen = l' then Some buf'
         else if padLen < l' then None
         else pad_loop w padLen l' buf' rs)"

text \<open>
  \<^verbatim>\<open>strings.Repeat(padstr, repeat)\<close> with \<^verbatim>\<open>repeat = int(math.Ceil(float64(padLen) /
  float64(padstrLen)))\<close>. The quotient is computed in float64; for lengths below
  \<open>2^53\<close> the conversions are exact and the rounded quotient has the same ceiling as
  the exact one, which is what the model takes. For a pad string of size 0 the quotient
  is infinite, its conversion to int is negative on amd64 and \<^verbatim>\<open>strings.Repeat\<close>
  panics.
\<close>

definition repeat_pad :: "gostring \<Rightarrow> int \<Rightarrow> int \<Rightarrow> error + gostring" where
  "repeat_pad padstr padLen padstrLen =
     (if padstrLen = 0 then Inl (Panic ''strings: negative Repeat count'')
      else
        let repeat = \<lceil>real_of_int padLen / real_of_int padstrLen\<rceil>
        in Inr (concat (replicate (nat repeat) padstr)))"

text \<open>
  The fourth and fifth arguments of the padding functions: the padding type, LEN when
  absent or Null, and the encoding, UTF8 when absent or Null.
\<close>

definition padType_arg :: "textenv \<Rightarrow> converter \<Rightarrow> string \<Rightarrow> primary list \<Rightarrow> error + PaddingType" where
  "padType_arg te cv fn args =
     (if 3 < length args then
        (case ToString cv (args ! 3) of
           None \<Rightarrow> Inr PaddingRuneCount
         | Some t \<Rightarrow>
             if ToUpper te t = S ''LEN'' then Inr PaddingRuneCount
             else if ToUpper te t = S ''BYTE'' then Inr PaddingByteCount
             else if ToUpper te t = S ''WIDTH'' then Inr PaddingWidth
             else Inl (FunctionInvalidArgumentError fn
                    ''padding type must be one of LEN|BYTE|WIDTH''))
      else Inr PaddingRuneCount)"

definition enc_arg :: "textenv \<Rightarrow> converter \<Rightarrow> string \<Rightarrow> primary list \<Rightarrow> error + encoding" where
  "enc_arg te cv fn args =
     (if 4 < length args then
        (case ToString cv (args ! 4) of
           None \<Rightarrow> Inr UTF8
         | Some encs \<Rightarrow>
             (case ParseEncoding te encs of
                Inl msg \<Rightarrow> Inl (FunctionInvalidArgumentError fn msg)
              | Inr e \<Rightarrow> Inr e))
      else Inr UTF8)"

text \<open>The size of a rune in a metric, and the length of a string in it.\<close>

definition rune_size :: "textenv \<Rightarrow> PaddingType \<Rightarrow> encoding \<Rightarrow> rune \<Rightarrow> nat" where
  "rune_size te pt enc r =
     (case pt of
        PaddingRuneCount \<Rightarrow> 1
      | PaddingByteCount \<Rightarrow> RuneByteSize te r enc
      | PaddingWidth \<Rightarrow> RuneWidth te r)"

definition metric :: "textenv \<Rightarrow> PaddingType \<Rightarrow> encoding \<Rightarrow> gostring \<Rightarrow> int" where
  "metric te pt enc s =
     (case pt of
        PaddingRuneCount \<Rightarrow> RuneCountInString s
      | PaddingByteCount \<Rightarrow> ByteSize te s enc
      | PaddingWidth \<Rightarrow> TextWidth te s)"

definition execStringsPadding ::
  "textenv \<Rightarrow> converter \<Rightarrow> string \<Rightarrow> primary list \<Rightarrow> Direction \<Rightarrow> error + primary" where
  "execStringsPadding te cv fn args direction =
     (if length args < 3 \<or> 5 < length args
      then Inl (FunctionArgumentLengthError fn [3, 4, 5])
      else case ToString cv (args ! 0) of
        None \<Rightarrow> Inr Null
      | Some str \<Rightarrow>
      (case ToInteger cv (args ! 1) of
        None \<Rightarrow> Inr Null
      | Some len \<Rightarrow>
      (case ToString cv (args ! 2) of
        None \<Rightarrow> Inr Null
      | Some padstr \<Rightarrow>
      (case padType_arg te cv fn args of
        Inl e \<Rightarrow> Inl e
      | Inr padType \<Rightarrow>
      (case enc_arg te cv fn args of
        Inl e \<Rightarrow> Inl e
      | Inr enc \<Rightarrow>
          let strLen = metric te padType enc str;
              padstrLen = metric te padType enc padstr
          in
          if len \<le> strLen then Inr (args ! 0)
          else
            let padLen = len - strLen in
            (case repeat_pad padstr padLen padstrLen of
               Inl e \<Rightarrow> Inl e
             | Inr padding0 \<Rightarrow>
               (case
                  (case padType of
                     PaddingRuneCount \<Rightarrow> slice padding0 0 padLen
                   | _ \<Rightarrow>
                       (case pad_loop (rune_size te padType enc) padLen 0 [] padding0 of
                          None \<Rightarrow> Inl (FunctionInvalidArgumentError fn
                            ''cannot split pad string in a byte array of a character'')
                        | Some buf \<Rightarrow> Inr buf))
                of
                  Inl e \<Rightarrow> Inl e
                | Inr padding \<Rightarrow>
                    if direction = RightDirection then Inr (String (str @ padding))
                    else Inr (String (padding @ str)))))))))"

definition Lpad :: "textenv \<Rightarrow> converter \<Rightarrow> string \<Rightarrow> primary list \<Rightarrow> error + primary" where
  "Lpad te cv fn args = execStringsPadding te cv fn args LeftDirection"

definition Rpad :: "textenv \<Rightarrow> converter \<Rightarrow> string \<Rightarrow> primary list \<Rightarrow> error + primary" where
  "Rpad te cv fn args = execStringsPadding te cv fn args RightDirection"

text \<open>
  Truncating the repeated pad string to the missing size would split a rune: some
  rune of it starts before that size is reached and ends after it.
\<close>

definition would_split :: "(rune \<Rightarrow> nat) \<Rightarrow> int \<Rightarrow> gostring \<Rightarrow> bool" where
  "would_split w padLen padding =
     (\<exists>n<length padding.
        int (sum_list (map w (take n padding))) < padLen \<and>
        padLen < int (sum_list (map w (take (Suc n) padding))))"

text \<open>
  An instance of the text functions, for examples. Its upper case is that of
  \<^verbatim>\<open>strings.ToUpper\<close> on strings of ASCII runes and of the two runes outside ASCII
  whose upper case is an ASCII letter, U+0131 (dotless i) and U+017F (long s); the
  examples use no other letter where the upper case is taken. The byte size is the
  UTF-8 size of a rune (two bytes beyond ASCII for SJIS). The width is 0 for the
  combining diacritical marks, 2 for the runes of the East Asian wide and fullwidth
  blocks and 1 for the others. The encoding names are the two of the spec.
\<close>

definition sample_upper :: "gostring \<Rightarrow> gostring" where
  "sample_upper s =
     map (\<lambda>r. if 97 \<le> r \<and> r \<le> 122 then r - 32
              else if r = 0x131 then 0x49
              else if r = 0x17F then 0x53
              else r) s"

definition sample_text :: textenv where
  "sample_text = \<lparr>
     ToUpper = sample_upper,
     RuneByteSize = (\<lambda>r enc. case enc of UTF8 \<Rightarrow> length (utf8_rune r)
                                 | SJIS \<Rightarrow> (if r < 0x80 then 1 else 2)),
     RuneWidth = (\<lambda>r. if 0x0300 \<le> r \<and> r \<le> 0x036F then 0
                     else if (0x1100 \<le> r \<and> r \<le> 0x115F) \<or> (0x2E80 \<le> r \<and> r \<le> 0xA4CF) \<or>
                        (0xAC00 \<le> r \<and> r \<le> 0xD7A3) \<or> (0xF900 \<le> r \<and> r \<le> 0xFAFF) \<or>
                        (0xFE30 \<le> r \<and> r \<le> 0xFE4F) \<or> (0xFF00 \<le> r \<and> r \<le> 0xFF60) \<or>
                        (0xFFE0 \<le> r \<and> r \<le> 0xFFE6)
                     then 2 else 1),
     ParseEncoding = (\<lambda>s. if sample_upper s = S ''UTF8'' then Inr UTF8
                          else if sample_upper s = S ''SJIS'' then Inr SJIS
                          else Inl ''encoding must be one of UTF8|SJIS'') \<rparr>"

section \<open>The registry of built-in functions\<close>

text \<open>
  The map \<^verbatim>\<open>Functions\<close> from the name of a built-in function to its implementation,
  restricted to the functions modelled here, in the order of the source.
\<close>

definition Functions ::
  "textenv \<Rightarrow> zoneinfo \<Rightarrow> mathlib \<Rightarrow> rand \<Rightarrow> converter \<Rightarrow>
   string \<Rightarrow> (string \<Rightarrow> primary list \<Rightarrow> error + primary) option" where
  "Functions te tz ml r cv = map_of [
     (''CEIL'', Ceil cv),
     (''FLOOR'', Floor cv),
     (''ROUND'', Round cv),
     (''ABS'', Abs cv),
     (''ACOS'', Acos ml cv),
     (''ASIN'', Asin ml cv),
     (''ATAN'', Atan ml cv),
     (''ATAN2'', Atan2 ml cv),
     (''COS'', Cos ml cv),
     (''SIN'', Sin ml cv),
     (''TAN'', Tan ml cv),
     (''EXP'', Exp ml cv),
     (''EXP2'', Exp2 ml cv),
     (''EXPM1'', Expm1 ml cv),
     (''LOG'', MathLog ml cv),
     (''LOG10'', Log10 ml cv),
     (''LOG2'', Log2 ml cv),
     (''LOG1P'', Log1p ml cv),
     (''SQRT'', Sqrt ml cv),
     (''POW'', Pow_f ml cv),
     (''RAND'', Rand r cv),
     (''LPAD'', Lpad te cv),
     (''RPAD'', Rpad te cv),
     (''SUBSTR'', Substr cv),
     (''INSTR'', Instr cv),
     (''TRUNC_MONTH'', TruncMonth tz cv),
     (''TRUNC_DAY'', TruncDay tz cv),
     (''TRUNC_TIME'', TruncTime tz cv),
     (''TRUNC_HOUR'', TruncTime tz cv)]"

section \<open>Run: the one-shot execution\<close>

datatype flow = Terminate | Exit | Break | Continue | Return

datatype run_error =
    SyntaxError string
  | ErrorNew string
  | ExecuteError string

text \<open>
  The state that \<^verbatim>\<open>Run\<close> works on: the files on disk, by path, the output file
  \<^verbatim>\<open>query.OutFile\<close>, and the state of package query (loaded and uncommitted views,
  locks), which only the collaborators below read and write.
\<close>

record 'q world =
  files :: "string \<rightharpoonup> string"
  OutFile :: "string option"
  session :: 'q

text \<open>
  The calls that \<^verbatim>\<open>Run\<close> makes, in order; the call of \<^verbatim>\<open>proc.Execute\<close> with what it
  returned.
\<close>

datatype call =
    CallParse
  | Executed flow "run_error option"
  | CallCommit
  | CallRollback
  | CallReleaseResources
  | CallShowStats
  | CallLogError string

record 'q run_state =
  world :: "'q world"
  trace :: "call list"

text \<open>
  The collaborators of \<^verbatim>\<open>Run\<close>, none of them among the sources, are parameters: the
  parser (\<open>Inl\<close> is the message of a syntax error), \<^verbatim>\<open>filepath.Abs\<close> (\<open>None\<close> when it
  fails), the failure of \<^verbatim>\<open>file.Create\<close>, \<^verbatim>\<open>proc.Execute\<close>, and \<^verbatim>\<open>query.Commit\<close>,
  \<^verbatim>\<open>query.Rollback\<close> and \<^verbatim>\<open>query.ReleaseResourcesWithErrors\<close>, each returning the
  message of its error, if any.
\<close>

record ('q, 's) run_env =
  Parse :: "string \<Rightarrow> string \<Rightarrow> string + 's list"
  filepath_Abs :: "string \<Rightarrow> string option"
  Create_error :: "string \<Rightarrow> 'q world \<Rightarrow> string option"
  Execute :: "'s list \<Rightarrow> 'q world \<Rightarrow> (flow \<times> run_error option) \<times> 'q world"
  Commit :: "'q world \<Rightarrow> string option \<times> 'q world"
  Rollback :: "'q world \<Rightarrow> string option \<times> 'q world"
  ReleaseResourcesWithErrors :: "'q world \<Rightarrow> string option \<times> 'q world"

definition log_call :: "call \<Rightarrow> 'q run_state \<Rightarrow> 'q run_state" where
  "log_call c st = st\<lparr>trace := trace st @ [c]\<rparr>"

text \<open>
  A call of one of the three collaborators that return an error, as \<^verbatim>\<open>Run\<close> makes it:
  \<^verbatim>\<open>if e := f(...); e != nil { query.LogError(e.Error()) }\<close>.
\<close>

definition call_logged ::
  "call \<Rightarrow> ('q world \<Rightarrow> string option \<times> 'q world) \<Rightarrow> 'q run_state \<Rightarrow> 'q run_state" where
  "call_logged c f st =
     (case f (world st) of (e, w') \<Rightarrow>
        let st1 = log_call c (st\<lparr>world := w'\<rparr>) in
        (case e of None \<Rightarrow> st1 | Some msg \<Rightarrow> log_call (CallLogError msg) st1))"

text \<open>The first deferred function: rollback, release of the resources, statistics.\<close>

definition deferred_cleanup :: "('q, 's) run_env \<Rightarrow> 'q run_state \<Rightarrow> 'q run_state" where
  "deferred_cleanup env st =
     log_call CallShowStats
       (call_logged CallReleaseResources (ReleaseResourcesWithErrors env)
          (call_logged CallRollback (Rollback env) st))"

text \<open>
  The second deferred function, registered once the output file has been created: an
  output file that is still empty is removed.
\<close>

definition remove_if_empty :: "string \<Rightarrow> 'q world \<Rightarrow> 'q world" where
  "remove_if_empty outfile w =
     (case files w outfile of
        Some content \<Rightarrow>
          if length content < 1 then w\<lparr>files := (files w)(outfile := None)\<rparr> else w
      | None \<Rightarrow> w)"

definition deferred_outfile :: "string \<Rightarrow> 'q run_state \<Rightarrow> 'q run_state" where
  "deferred_outfile outfile st = st\<lparr>world := remove_if_empty outfile (world st)\<rparr>"

text \<open>
  The output file: its absolute path, when \<^verbatim>\<open>filepath.Abs\<close> gives one, and its
  creation, after which it is \<^verbatim>\<open>query.OutFile\<close>.
\<close>

definition outfile_path :: "('q, 's) run_env \<Rightarrow> string \<Rightarrow> string" where
  "outfile_path env outfile =
     (case filepath_Abs env outfile of Some a \<Rightarrow> a | None \<Rightarrow> outfile)"

definition create_outfile :: "string \<Rightarrow> 'q world \<Rightarrow> 'q world" where
  "create_outfile outfile w = w\<lparr>files := (files w)(outfile \<mapsto> []), OutFile := Some outfile\<rparr>"

text \<open>The end of \<^verbatim>\<open>Run\<close>: the statements are executed, and committed on success.\<close>

definition run_statements ::
  "('q, 's) run_env \<Rightarrow> 's list \<Rightarrow> 'q run_state \<Rightarrow> run_error option \<times> 'q run_state" where
  "run_statements env statements st =
     (case Execute env statements (world st) of ((flow, err), w') \<Rightarrow>
        let st1 = log_call (Executed flow err) (st\<lparr>world := w'\<rparr>) in
        if err = None \<and> flow = Terminate
        then (err, call_logged CallCommit (Commit env) st1)
        else (err, st1))"

definition Run ::
  "('q, 's) run_env \<Rightarrow> string \<Rightarrow> string \<Rightarrow> string \<Rightarrow> 'q run_state \<Rightarrow>
   run_error option \<times> 'q run_state" where
  "Run env input sourceFile outfile st0 =
     (let st = log_call CallParse st0 in
      case Parse env input sourceFile of
        Inl msg \<Rightarrow> (Some (SyntaxError msg), deferred_cleanup env st)
      | Inr statements \<Rightarrow>
          if 0 < length outfile then
            let outfile' = outfile_path env outfile in
            if files (world st) outfile' \<noteq> None
            then (Some (ErrorNew (''file '' @ outfile' @ '' already exists'')),
                  deferred_cleanup env st)
            else
              (case Create_error env outfile' (world st) of
                 Some msg \<Rightarrow>
                   (Some (ErrorNew (''failed to create file: '' @ msg)),
                    deferred_cleanup env st)
               | None \<Rightarrow>
                   let st1 = st\<lparr>world := create_outfile outfile' (world st)\<rparr>
                   in (case run_statements env statements st1 of (err, st2) \<Rightarrow>
                         (err, deferred_cleanup env (deferred_outfile outfile' st2))))
          else
            (case run_statements env statements st of (err, st2) \<Rightarrow>
               (err, deferred_cleanup env st2)))"

text \<open>
  What the deferred rollback and release do to the state, and the two steps around the
  execution that depend on the output file: the state in which the statements are
  executed, and the removal of an output file left empty.
\<close>

definition cleanup_world :: "('q, 's) run_env \<Rightarrow> 'q world \<Rightarrow> 'q world" where
  "cleanup_world env w = snd (ReleaseResourcesWithErrors env (snd (Rollback env w)))"

definition exec_world :: "('q, 's) run_env \<Rightarrow> string \<Rightarrow> 'q world \<Rightarrow> 'q world" where
  "exec_world env outfile w =
     (if 0 < length outfile then create_outfile (outfile_path env outfile) w else w)"

definition finish_outfile :: "('q, 's) run_env \<Rightarrow> string \<Rightarrow> 'q world \<Rightarrow> 'q world" where
  "finish_outfile env outfile w =
     (if 0 < length outfile then remove_if_empty (outfile_path env outfile) w else w)"

text \<open>
  Two shapes of a part of the trace: the calls of the first deferred function after
  the rollback, and the calls between parsing and rollback when the statements are
  executed.
\<close>

definition cleanup_call :: "call \<Rightarrow> bool" where
  "cleanup_call c = (c = CallReleaseResources \<or> c = CallShowStats \<or> (\<exists>m. c = CallLogError m))"

definition body_calls :: "run_error option \<Rightarrow> call list \<Rightarrow> bool" where
  "body_calls err mid =
     ((\<exists>f. mid = [Executed f err] \<and> \<not> (err = None \<and> f = Terminate)) \<or>
      (err = None \<and> (mid = [Executed Terminate None, CallCommit] \<or>
         (\<exists>m. mid = [Executed Terminate None, CallCommit, CallLogError m]))))"

text \<open>
  Modelled from the spec: an instance of the collaborators, for examples, with the
  transaction verbs of package query (not under src/) as the spec describes them:
  "COMMIT flushes all dirty views; ROLLBACK discards", and the rollback protocol is to
  "discard recordset mutations", "delete created files that were never committed" and
  release the locks. The state of the session is the list of pending writes (path and
  content) and the list of created files that are not committed. The input \<open>''?''\<close>
  does not parse and any other input is one statement; every statement leaves a
  pending write to \<open>/t.csv\<close>; the statement \<open>''fail''\<close> then ends the execution with
  an error and any other terminates; paths are absolute already; nothing else fails.
\<close>

record sample_session =
  pending :: "(string \<times> string) list"
  created :: "string list"

definition sample_Commit :: "sample_session world \<Rightarrow> string option \<times> sample_session world" where
  "sample_Commit w =
     (None, w\<lparr>files := fold (\<lambda>(p, c) m. m(p \<mapsto> c)) (pending (session w)) (files w),
              session := \<lparr>pending = [], created = []\<rparr>\<rparr>)"

definition sample_Rollback :: "sample_session world \<Rightarrow> string option \<times> sample_session world" where
  "sample_Rollback w =
     (None, w\<lparr>files := fold (\<lambda>p m. m(p := None)) (created (session w)) (files w),
              session := \<lparr>pending = [], created = []\<rparr>\<rparr>)"

definition sample_Execute ::
  "string list \<Rightarrow> sample_session world \<Rightarrow> (flow \<times> run_error option) \<times> sample_session world" where
  "sample_Execute statements w =
     (let w' = w\<lparr>session := (session w)\<lparr>pending := pending (session w) @ [(''/t.csv'', ''1,2'')]\<rparr>\<rparr>
      in if statements = [''fail''] then ((Terminate, Some (ExecuteError ''failed'')), w')
         else ((Terminate, None), w'))"

definition sample_env :: "(sample_session, string) run_env" where
  "sample_env = \<lparr>
     Parse = (\<lambda>input sourceFile. if input = ''?'' then Inl ''syntax error'' else Inr [input]),
     filepath_Abs = (\<lambda>p. Some p),
     Create_error = (\<lambda>p w. None),
     Execute = sample_Execute,
     Commit = sample_Commit,
     Rollback = sample_Rollback,
     ReleaseResourcesWithErrors = (\<lambda>w. (None, w)) \<rparr>"

text \<open>
  Two states in which the file \<open>/out.csv\<close> exists: in the first it is a file with
  content that the session has not touched; in the second it is a file that the
  session has created and not committed, still empty.
\<close>

definition sample_state :: "sample_session run_state" where
  "sample_state =
     \<lparr>world = \<lparr>files = [''/out.csv'' \<mapsto> ''a,b''], OutFile = None,
               session = \<lparr>pending = [], created = []\<rparr>\<rparr>,
      trace = []\<rparr>"

definition created_state :: "sample_session run_state" where
  "created_state =
     \<lparr>world = \<lparr>files = [''/out.csv'' \<mapsto> []], OutFile = None,
               session = \<lparr>pending = [], created = [''/out.csv'']\<rparr>\<rparr>,
      trace = []\<rparr>"

section \<open>SET FLAG\<close>

text \<open>
  Modelled from the spec: the names of the session flags, constants of lib/cmd (not
  under src/). They are the flags that the spec lists, in upper case:
  "repository, timezone, datetime_format, wait_timeout, delimiter, json_query,
  encoding, no_header, without_null, format, write_encoding, write_delimiter,
  without_header, line_break, enclose_all, json_escape, pretty_print,
  east_asian_encoding, count_diacritical_sign, count_format_code, color, quiet, cpu,
  stats".
\<close>

definition RepositoryFlag :: gostring where
  "RepositoryFlag = S ''REPOSITORY''"

definition TimezoneFlag :: gostring where
  "TimezoneFlag = S ''TIMEZONE''"

definition DatetimeFormatFlag :: gostring where
  "DatetimeFormatFlag = S ''DATETIME_FORMAT''"

definition WaitTimeoutFlag :: gostring where
  "WaitTimeoutFlag = S ''WAIT_TIMEOUT''"

definition DelimiterFlag :: gostring where
  "DelimiterFlag = S ''DELIMITER''"

definition JsonQueryFlag :: gostring where
  "JsonQueryFlag = S ''JSON_QUERY''"

definition EncodingFlag :: gostring where
  "EncodingFlag = S ''ENCODING''"

definition NoHeaderFlag :: gostring where
  "NoHeaderFlag = S ''NO_HEADER''"

definition WithoutNullFlag :: gostring where
  "WithoutNullFlag = S ''WITHOUT_NULL''"

definition FormatFlag :: gostring where
  "FormatFlag = S ''FORMAT''"

definition WriteEncodingFlag :: gostring where
  "WriteEncodingFlag = S ''WRITE_ENCODING''"

definition WriteDelimiterFlag :: gostring where
  "WriteDelimiterFlag = S ''WRITE_DELIMITER''"

definition WithoutHeaderFlag :: gostring where
  "WithoutHeaderFlag = S ''WITHOUT_HEADER''"

definition LineBreakFlag :: gostring where
  "LineBreakFlag = S ''LINE_BREAK''"

definition EncloseAll :: gostring where
  "EncloseAll = S ''ENCLOSE_ALL''"

definition JsonEscape :: gostring where
  "JsonEscape = S ''JSON_ESCAPE''"

definition PrettyPrintFlag :: gostring where
  "PrettyPrintFlag = S ''PRETTY_PRINT''"

definition EastAsianEncodingFlag :: gostring where
  "EastAsianEncodingFlag = S ''EAST_ASIAN_ENCODING''"

definition CountDiacriticalSignFlag :: gostring where
  "CountDiacriticalSignFlag = S ''COUNT_DIACRITICAL_SIGN''"

definition CountFormatCodeFlag :: gostring where
  "CountFormatCodeFlag = S ''COUNT_FORMAT_CODE''"

definition ColorFlag :: gostring where
  "ColorFlag = S ''COLOR''"

definition QuietFlag :: gostring where
  "QuietFlag = S ''QUIET''"

definition CPUFlag :: gostring where
  "CPUFlag = S ''CPU''"

definition StatsFlag :: gostring where
  "StatsFlag = S ''STATS''"

text \<open>
  The setters of \<^verbatim>\<open>cmd.Flags\<close> are parameters, over any representation \<open>'f\<close> of the
  session flags. A setter that returns an error returns its message.
\<close>

record 'f flag_setters =
  SetRepository :: "gostring \<Rightarrow> 'f \<Rightarrow> string option \<times> 'f"
  SetLocation :: "gostring \<Rightarrow> 'f \<Rightarrow> string option \<times> 'f"
  SetDatetimeFormat :: "gostring \<Rightarrow> 'f \<Rightarrow> 'f"
  SetWaitTimeout :: "float64 \<Rightarrow> 'f \<Rightarrow> 'f"
  SetDelimiter :: "gostring \<Rightarrow> 'f \<Rightarrow> string option \<times> 'f"
  SetJsonQuery :: "gostring \<Rightarrow> 'f \<Rightarrow> 'f"
  SetEncoding :: "gostring \<Rightarrow> 'f \<Rightarrow> string option \<times> 'f"
  SetNoHeader :: "bool \<Rightarrow> 'f \<Rightarrow> 'f"
  SetWithoutNull :: "bool \<Rightarrow> 'f \<Rightarrow> 'f"
  SetFormat :: "gostring \<Rightarrow> 'f \<Rightarrow> string option \<times> 'f"
  SetWriteEncoding :: "gostring \<Rightarrow> 'f \<Rightarrow> string option \<times> 'f"
  SetWriteDelimiter :: "gostring \<Rightarrow> 'f \<Rightarrow> string option \<times> 'f"
  SetWithoutHeader :: "bool \<Rightarrow> 'f \<Rightarrow> 'f"
  SetLineBreak :: "gostring \<Rightarrow> 'f \<Rightarrow> string option \<times> 'f"
  SetEncloseAll :: "bool \<Rightarrow> 'f \<Rightarrow> 'f"
  SetJsonEscape :: "gostring \<Rightarrow> 'f \<Rightarrow> string option \<times> 'f"
  SetPrettyPrint :: "bool \<Rightarrow> 'f \<Rightarrow> 'f"
  SetEastAsianEncoding :: "bool \<Rightarrow> 'f \<Rightarrow> 'f"
  SetCountDiacriticalSign :: "bool \<Rightarrow> 'f \<Rightarrow> 'f"
  SetCountFormatCode :: "bool \<Rightarrow> 'f \<Rightarrow> 'f"
  SetColor :: "bool \<Rightarrow> 'f \<Rightarrow> 'f"
  SetQuiet :: "bool \<Rightarrow> 'f \<Rightarrow> 'f"
  SetCPU :: "int \<Rightarrow> 'f \<Rightarrow> 'f"
  SetStats :: "bool \<Rightarrow> 'f \<Rightarrow> 'f"

text \<open>
  The statement \<^verbatim>\<open>parser.SetFlag\<close>: the name of the flag and the value, which is an
  identifier or another expression. \<^verbatim>\<open>filter.Evaluate\<close> is a parameter; it may fail,
  and what it does to the session flags while it evaluates (a user-defined function
  runs statements) is part of its result.
\<close>

datatype 'e query_expression = Identifier gostring | Expression 'e

record 'e set_flag =
  Name :: gostring
  Value :: "'e query_expression"

datatype flag_error =
    EvaluateError string
  | InvalidFlagNameError gostring
  | FlagValueNotAllowedFormatError
  | InvalidFlagValueError string
  | TypeAssertionPanic

text \<open>The value of the statement, and the flags as its evaluation leaves them.\<close>

definition flag_value ::
  "('e \<Rightarrow> 'f \<Rightarrow> (string + primary) \<times> 'f) \<Rightarrow> 'e set_flag \<Rightarrow> 'f \<Rightarrow> (string + primary) \<times> 'f" where
  "flag_value Evaluate expr flags =
     (case Value expr of
        Identifier literal \<Rightarrow> (Inr (String literal), flags)
      | Expression e \<Rightarrow> Evaluate e flags)"

text \<open>
  The first switch: the value is converted to the type of the flag. \<open>Inl\<close> is the
  return for a name that is not a flag, \<open>Inr Null\<close> a failed conversion.
\<close>

definition string_flags :: "gostring list" where
  "string_flags = [RepositoryFlag, TimezoneFlag, DatetimeFormatFlag, DelimiterFlag, JsonQueryFlag, EncodingFlag, WriteEncodingFlag, FormatFlag, WriteDelimiterFlag, LineBreakFlag, JsonEscape]"

definition boolean_flags :: "gostring list" where
  "boolean_flags = [NoHeaderFlag, WithoutNullFlag, WithoutHeaderFlag, EncloseAll, PrettyPrintFlag, EastAsianEncodingFlag, CountDiacriticalSignFlag, CountFormatCodeFlag, ColorFlag, QuietFlag, StatsFlag]"

definition of_option :: "('a \<Rightarrow> primary) \<Rightarrow> 'a option \<Rightarrow> primary" where
  "of_option c x = (case x of None \<Rightarrow> Null | Some v \<Rightarrow> c v)"

definition convert_flag_value :: "textenv \<Rightarrow> converter \<Rightarrow> gostring \<Rightarrow> primary \<Rightarrow> flag_error + primary" where
  "convert_flag_value te cv name p =
     (if ToUpper te name \<in> set string_flags then Inr (of_option String (ToString cv p))
      else if ToUpper te name \<in> set boolean_flags then Inr (of_option Boolean (ToBoolean cv p))
      else if ToUpper te name = WaitTimeoutFlag then Inr (of_option Float (ToFloat cv p))
      else if ToUpper te name = CPUFlag then Inr (of_option Integer (ToInteger cv p))
      else Inl (InvalidFlagNameError name))"

text \<open>
  The second switch: the setter of the flag is called. A type assertion such as
  \<^verbatim>\<open>p.(value.String)\<close> panics on a value of another type.
\<close>

definition no_error :: "'f \<Rightarrow> (flag_error + string option) \<times> 'f" where
  "no_error flags = (Inr None, flags)"

definition with_error :: "string option \<times> 'f \<Rightarrow> (flag_error + string option) \<times> 'f" where
  "with_error r = (Inr (fst r), snd r)"

definition assertion_panic :: "'f \<Rightarrow> (flag_error + string option) \<times> 'f" where
  "assertion_panic flags = (Inl TypeAssertionPanic, flags)"

definition call_setter ::
  "textenv \<Rightarrow> 'f flag_setters \<Rightarrow> gostring \<Rightarrow> primary \<Rightarrow> 'f \<Rightarrow>
   (flag_error + string option) \<times> 'f" where
  "call_setter te st name p flags =
     (if ToUpper te name = RepositoryFlag then
        (case p of String v \<Rightarrow> with_error (SetRepository st v flags) | _ \<Rightarrow> assertion_panic flags)
      else if ToUpper te name = TimezoneFlag then
        (case p of String v \<Rightarrow> with_error (SetLocation st v flags) | _ \<Rightarrow> assertion_panic flags)
      else if ToUpper te name = DatetimeFormatFlag then
        (case p of String v \<Rightarrow> no_error (SetDatetimeFormat st v flags) | _ \<Rightarrow> assertion_panic flags)
      else if ToUpper te name = WaitTimeoutFlag then
        (case p of Float v \<Rightarrow> no_error (SetWaitTimeout st v flags) | _ \<Rightarrow> assertion_panic flags)
      else if ToUpper te name = DelimiterFlag then
        (case p of String v \<Rightarrow> with_error (SetDelimiter st v flags) | _ \<Rightarrow> assertion_panic flags)
      else if ToUpper te name = JsonQueryFlag then
        (case p of String v \<Rightarrow> no_error (SetJsonQuery st v flags) | _ \<Rightarrow> assertion_panic flags)
      else if ToUpper te name = EncodingFlag then
        (case p of String v \<Rightarrow> with_error (SetEncoding st v flags) | _ \<Rightarrow> assertion_panic flags)
      else if ToUpper te name = NoHeaderFlag then
        (case p of Boolean v \<Rightarrow> no_error (SetNoHeader st v flags) | _ \<Rightarrow> assertion_panic flags)
      else if ToUpper te name = WithoutNullFlag then
        (case p of Boolean v \<Rightarrow> no_error (SetWithoutNull st v flags) | _ \<Rightarrow> assertion_panic flags)
      else if ToUpper te name = FormatFlag then
        (case p of String v \<Rightarrow> with_error (SetFormat st v flags) | _ \<Rightarrow> assertion_panic flags)
      else if ToUpper te name = WriteEncodingFlag then
        (case p of String v \<Rightarrow> with_error (SetWriteEncoding st v flags) | _ \<Rightarrow> assertion_panic flags)
      else if ToUpper te name = WriteDelimiterFlag then
        (case p of String v \<Rightarrow> with_error (SetWriteDelimiter st v flags) | _ \<Rightarrow> assertion_panic flags)
      else if ToUpper te name = WithoutHeaderFlag then
        (case p of Boolean v \<Rightarrow> no_error (SetWithoutHeader st v flags) | _ \<Rightarrow> assertion_panic flags)
      else if ToUpper te name = LineBreakFlag then
        (case p of String v \<Rightarrow> with_error (SetLineBreak st v flags) | _ \<Rightarrow> assertion_panic flags)
      else if ToUpper te name = EncloseAll then
        (case p of Boolean v \<Rightarrow> no_error (SetEncloseAll st v flags) | _ \<Rightarrow> assertion_panic flags)
      else if ToUpper te name = JsonEscape then
        (case p of String v \<Rightarrow> with_error (SetJsonEscape st v flags) | _ \<Rightarrow> assertion_panic flags)
      else if ToUpper te name = PrettyPrintFlag then
        (case p of Boolean v \<Rightarrow> no_error (SetPrettyPrint st v flags) | _ \<Rightarrow> assertion_panic flags)
      else if ToUpper te name = EastAsianEncodingFlag then
        (case p of Boolean v \<Rightarrow> no_error (SetEastAsianEncoding st v flags) | _ \<Rightarrow> assertion_panic flags)
      else if ToUpper te name = CountDiacriticalSignFlag then
        (case p of Boolean v \<Rightarrow> no_error (SetCountDiacriticalSign st v flags) | _ \<Rightarrow> assertion_panic flags)
      else if ToUpper te name = CountFormatCodeFlag then
        (case p of Boolean v \<Rightarrow> no_error (SetCountFormatCode st v flags) | _ \<Rightarrow> assertion_panic flags)
      else if ToUpper te name = ColorFlag then
        (case p of Boolean v \<Rightarrow> no_error (SetColor st v flags) | _ \<Rightarrow> assertion_panic flags)
      else if ToUpper te name = QuietFlag then
        (case p of Boolean v \<Rightarrow> no_error (SetQuiet st v flags) | _ \<Rightarrow> assertion_panic flags)
      else if ToUpper te name = CPUFlag then
        (case p of Integer v \<Rightarrow> no_error (SetCPU st v flags) | _ \<Rightarrow> assertion_panic flags)
      else if ToUpper te name = StatsFlag then
        (case p of Boolean v \<Rightarrow> no_error (SetStats st v flags) | _ \<Rightarrow> assertion_panic flags)
      else no_error flags)"

definition SetFlag ::
  "textenv \<Rightarrow> ('e \<Rightarrow> 'f \<Rightarrow> (string + primary) \<times> 'f) \<Rightarrow> converter \<Rightarrow> 'f flag_setters \<Rightarrow>
   'e set_flag \<Rightarrow> 'f \<Rightarrow> flag_error option \<times> 'f" where
  "SetFlag te Evaluate cv st expr flags0 =
     (case flag_value Evaluate expr flags0 of
        (Inl err, flags) \<Rightarrow> (Some (EvaluateError err), flags)
      | (Inr p0, flags) \<Rightarrow>
          (case convert_flag_value te cv (Name expr) p0 of
             Inl e \<Rightarrow> (Some e, flags)
           | Inr p \<Rightarrow>
               if p = Null then (Some FlagValueNotAllowedFormatError, flags)
               else
                 (case call_setter te st (Name expr) p flags of
                    (Inl e, flags') \<Rightarrow> (Some e, flags')
                  | (Inr (Some msg), flags') \<Rightarrow> (Some (InvalidFlagValueError msg), flags')
                  | (Inr None, flags') \<Rightarrow> (None, flags'))))"


text \<open>
  An instance for examples: the session flags are two of the flags, the number of CPUs
  and the quiet flag; the setters of the other flags do nothing, and no setter fails.
  An expression is a literal value, which evaluates to itself: \<open>sample_Evaluate\<close>
  leaves the flags alone, and \<open>writing_Evaluate\<close> sets the quiet flag on the way, as
  an expression does that calls a user-defined function with a SET statement in its
  body.
\<close>

record sample_flags =
  CPU :: int
  Quiet :: bool

definition sample_setters :: "sample_flags flag_setters" where
  "sample_setters = \<lparr>
     SetRepository = (\<lambda>v f. (None, f)),
     SetLocation = (\<lambda>v f. (None, f)),
     SetDatetimeFormat = (\<lambda>v f. f),
     SetWaitTimeout = (\<lambda>v f. f),
     SetDelimiter = (\<lambda>v f. (None, f)),
     SetJsonQuery = (\<lambda>v f. f),
     SetEncoding = (\<lambda>v f. (None, f)),
     SetNoHeader = (\<lambda>v f. f),
     SetWithoutNull = (\<lambda>v f. f),
     SetFormat = (\<lambda>v f. (None, f)),
     SetWriteEncoding = (\<lambda>v f. (None, f)),
     SetWriteDelimiter = (\<lambda>v f. (None, f)),
     SetWithoutHeader = (\<lambda>v f. f),
     SetLineBreak = (\<lambda>v f. (None, f)),
     SetEncloseAll = (\<lambda>v f. f),
     SetJsonEscape = (\<lambda>v f. (None, f)),
     SetPrettyPrint = (\<lambda>v f. f),
     SetEastAsianEncoding = (\<lambda>v f. f),
     SetCountDiacriticalSign = (\<lambda>v f. f),
     SetCountFormatCode = (\<lambda>v f. f),
     SetColor = (\<lambda>v f. f),
     SetQuiet = (\<lambda>v f. f\<lparr>Quiet := v\<rparr>),
     SetCPU = (\<lambda>v f. f\<lparr>CPU := v\<rparr>),
     SetStats = (\<lambda>v f. f) \<rparr>"

definition sample_Evaluate :: "primary \<Rightarrow> sample_flags \<Rightarrow> (string + primary) \<times> sample_flags" where
  "sample_Evaluate e flags = (Inr e, flags)"


section \<open>Properties of SUBSTR\<close>

lemma well_rangedD:
  assumes "well_ranged cv args" "k < length args"
  shows "ToInteger cv (args ! k) = Some i \<Longrightarrow> is_int64 i"
    and "ToString cv (args ! k) = Some s \<Longrightarrow> int (length s) < 2 ^ 63"
  using assms nth_mem[OF assms(2)] unfolding well_ranged_def by blast+

lemma int64_id: "is_int64 x \<Longrightarrow> int64 x = x"
  by (simp add: int64_def is_int64_def)

lemma Substr_null_arg:
  assumes "length args = 2 \<or> length args = 3" "null_propagating cv" "Null \<in> set args"
  shows "Substr cv fn args = Inr Null"
proof -
  from assms(3) obtain k where k: "k < length args" "args ! k = Null"
    by (auto simp: in_set_conv_nth)
  with assms(1) have "k = 0 \<or> k = 1 \<or> (k = 2 \<and> length args = 3)" by auto
  then show ?thesis using k assms(1,2)
    by (auto simp: Substr_def null_propagating_def Let_def split: option.splits)
qed

lemma Substr_two:
  assumes "length args = 2" "well_ranged cv args"
    "ToString cv (args ! 0) = Some s" "ToInteger cv (args ! 1) = Some i"
  shows "Substr cv fn args =
     (let n = int (length s); st = (if i < 0 then n + i else i)
      in if st < 0 \<or> n \<le> st then Inr Null else Inr (String (drop (nat st) s)))"
proof -
  have i: "is_int64 i"
    using well_rangedD(1)[OF assms(2) _ assms(4)] assms(1) by simp
  have n: "int (length s) < 2 ^ 63"
    using well_rangedD(2)[OF assms(2) _ assms(3)] assms(1) by simp
  have "i < 0 \<Longrightarrow> int64 (int (length s) + i) = int (length s) + i"
    using i n by (intro int64_id) (simp add: is_int64_def)
  then show ?thesis using assms(1,3,4)
    by (auto simp: Substr_def Let_def slice_def)
qed

lemma Substr_three:
  assumes "length args = 3" "well_ranged cv args"
    "ToString cv (args ! 0) = Some s" "ToInteger cv (args ! 1) = Some i"
    "ToInteger cv (args ! 2) = Some l"
  shows "Substr cv fn args =
     (let n = int (length s); st = (if i < 0 then n + i else i)
      in if st < 0 \<or> n \<le> st \<or> l < 0 then Inr Null
         else if st + l < 2 ^ 63 then Inr (String (take (nat l) (drop (nat st) s)))
         else Inl (Panic ''slice bounds out of range''))"
proof -
  have i: "is_int64 i"
    using well_rangedD(1)[OF assms(2) _ assms(4)] assms(1) by simp
  have l: "is_int64 l"
    using well_rangedD(1)[OF assms(2) _ assms(5)] assms(1) by simp
  have n: "int (length s) < 2 ^ 63"
    using well_rangedD(2)[OF assms(2) _ assms(3)] assms(1) by simp
  define n' where "n' = int (length s)"
  define st where "st = (if i < 0 then n' + i else i)"
  have "i < 0 \<Longrightarrow> int64 (n' + i) = n' + i"
    using i n unfolding n'_def by (intro int64_id) (simp add: is_int64_def)
  then have eq: "(if i < 0 then int64 (n' + i) else i) = st"
    by (simp add: st_def)
  have unf: "Substr cv fn args =
      (if st < 0 \<or> n' \<le> st then Inr Null
       else if l < 0 then Inr Null
       else map_sum id String (slice s st (if n' < int64 (st + l) then n' else int64 (st + l))))"
    unfolding Substr_def using assms(1,3,4,5) eq
    by (simp add: Let_def n'_def[symmetric] del: One_nat_def)
  have goal: "Substr cv fn args =
      (if st < 0 \<or> n' \<le> st \<or> l < 0 then Inr Null
         else if st + l < 2 ^ 63 then Inr (String (take (nat l) (drop (nat st) s)))
         else Inl (Panic ''slice bounds out of range''))"
  proof (cases "st < 0 \<or> n' \<le> st \<or> l < 0")
    case True
    then show ?thesis unfolding unf by auto
  next
    case False
    then have st: "0 \<le> st" "st < n'" "0 \<le> l" by auto
    show ?thesis
    proof (cases "st + l < 2 ^ 63")
      case True
      then have e: "int64 (st + l) = st + l"
        using st by (intro int64_id) (simp add: is_int64_def)
      have "slice s st (if n' < st + l then n' else st + l) = Inr (take (nat l) (drop (nat st) s))"
        using st by (simp add: slice_def n'_def)
      then show ?thesis unfolding unf e using st True by simp
    next
      case False
      have lt: "st + l < 2 ^ 64" using st l n by (simp add: is_int64_def n'_def)
      have "int64 (st + l) = st + l - 2 ^ 64"
        using False lt unfolding int64_def
      proof -
        have "(st + l + 2 ^ 63) mod 2 ^ 64 = (st + l + 2 ^ 63 - 2 ^ 64) mod (2 ^ 64 :: int)"
          by (metis mod_diff_right_eq mod_self diff_zero)
        also have "\<dots> = st + l + 2 ^ 63 - 2 ^ 64"
          using False lt by (intro mod_pos_pos_trivial) auto
        finally show "(st + l + 2 ^ 63) mod 2 ^ 64 - 2 ^ 63 = st + l - 2 ^ 64" by simp
      qed
      then have neg: "int64 (st + l) < 0" using lt by simp
      then have "slice s st (if n' < int64 (st + l) then n' else int64 (st + l)) = Inl (Panic ''slice bounds out of range'')"
        using st by (simp add: slice_def)
      then show ?thesis unfolding unf using st False by simp
    qed
  qed
  then show ?thesis by (simp add: Let_def n'_def st_def)
qed

text \<open>
  What SUBSTR(s, start[, len]) does where the addition of the start position and len
  stays below \<open>2^63\<close>: it indexes by runes. A Null argument yields Null. With \<open>st\<close>
  the start position after a negative start has been wrapped from the end of the
  string: a position outside the string yields Null, a negative len yields Null, the
  two-argument form returns the runes from \<open>st\<close> to the end, and the three-argument
  form returns at most len runes from \<open>st\<close> on.
\<close>

lemma Substr_indexes_by_runes:
  assumes len: "length args = 2 \<or> length args = 3"
    and np: "null_propagating cv" and wr: "well_ranged cv args"
  shows "(Null \<in> set args \<longrightarrow> Substr cv fn args = Inr Null) \<and>
    (\<forall>s i. ToString cv (args ! 0) = Some s \<and> ToInteger cv (args ! 1) = Some i \<longrightarrow>
       (let n = int (length s); st = (if i < 0 then n + i else i) in
          (st < 0 \<or> n \<le> st \<longrightarrow> Substr cv fn args = Inr Null) \<and>
          (0 \<le> st \<and> st < n \<and> length args = 2 \<longrightarrow>
             Substr cv fn args = Inr (String (drop (nat st) s))) \<and>
          (\<forall>l. length args = 3 \<and> ToInteger cv (args ! 2) = Some l \<longrightarrow>
             (l < 0 \<longrightarrow> Substr cv fn args = Inr Null) \<and>
             (0 \<le> st \<and> st < n \<and> 0 \<le> l \<and> st + l < 2 ^ 63 \<longrightarrow>
                Substr cv fn args = Inr (String (take (nat l) (drop (nat st) s)))))))"
proof (intro conjI allI impI)
  assume "Null \<in> set args"
  then show "Substr cv fn args = Inr Null" by (rule Substr_null_arg[OF len np])
next
  fix s i
  assume h: "ToString cv (args ! 0) = Some s \<and> ToInteger cv (args ! 1) = Some i"
  define n where "n = int (length s)"
  define st where "st = (if i < 0 then n + i else i)"
  have two: "length args = 2 \<Longrightarrow> Substr cv fn args =
      (if st < 0 \<or> n \<le> st then Inr Null else Inr (String (drop (nat st) s)))"
    using Substr_two[OF _ wr, of s i fn] h by (simp add: Let_def n_def st_def)
  have three: "\<And>l. length args = 3 \<Longrightarrow> ToInteger cv (args ! 2) = Some l \<Longrightarrow>
      Substr cv fn args =
      (if st < 0 \<or> n \<le> st \<or> l < 0 then Inr Null
       else if st + l < 2 ^ 63 then Inr (String (take (nat l) (drop (nat st) s)))
       else Inl (Panic ''slice bounds out of range''))"
    using Substr_three[OF _ wr, of s i _ fn] h by (simp add: Let_def n_def st_def)
  have oor: "st < 0 \<or> n \<le> st \<Longrightarrow> Substr cv fn args = Inr Null"
  proof -
    assume o: "st < 0 \<or> n \<le> st"
    show ?thesis
    proof (cases "length args = 2")
      case True
      then show ?thesis using two o by simp
    next
      case False
      then have l3: "length args = 3" using len by simp
      show ?thesis
      proof (cases "ToInteger cv (args ! 2)")
        case None
        then show ?thesis using l3 h by (simp add: Substr_def Let_def)
      next
        case (Some l)
        then show ?thesis using three[OF l3 Some] o by auto
      qed
    qed
  qed
  show "let n = int (length s); st = (if i < 0 then n + i else i) in
          (st < 0 \<or> n \<le> st \<longrightarrow> Substr cv fn args = Inr Null) \<and>
          (0 \<le> st \<and> st < n \<and> length args = 2 \<longrightarrow>
             Substr cv fn args = Inr (String (drop (nat st) s))) \<and>
          (\<forall>l. length args = 3 \<and> ToInteger cv (args ! 2) = Some l \<longrightarrow>
             (l < 0 \<longrightarrow> Substr cv fn args = Inr Null) \<and>
             (0 \<le> st \<and> st < n \<and> 0 \<le> l \<and> st + l < 2 ^ 63 \<longrightarrow>
                Substr cv fn args = Inr (String (take (nat l) (drop (nat st) s)))))"
    unfolding Let_def n_def[symmetric] st_def[symmetric]
    using oor two three by auto
qed

lemma Substr_indexes_by_runes_example:
  "null_propagating strict_conv \<and>
   well_ranged strict_conv [String (S ''abcde''), Integer (- 2)] \<and>
   Substr strict_conv ''SUBSTR'' [String (S ''abcde''), Integer (- 2)] = Inr (String (S ''de''))"
proof -
  have np: "null_propagating strict_conv"
    by (simp add: null_propagating_def strict_conv_def)
  have wr: "well_ranged strict_conv [String (S ''abcde''), Integer (- 2)]"
    by (simp add: well_ranged_def strict_conv_def is_int64_def S_def)
  have "Substr strict_conv ''SUBSTR'' [String (S ''abcde''), Integer (- 2)] =
        Inr (String (drop (nat 3) (S ''abcde'')))"
    using Substr_indexes_by_runes[of "[String (S ''abcde''), Integer (- 2)]" strict_conv "''SUBSTR''", OF _ np wr]
    by (simp add: strict_conv_def S_def Let_def)
  then show ?thesis using np wr by (simp add: S_def)
qed

text \<open>
  C3. SUBSTR indexes by runes for every string, start and len: the code does not, for
  every len. It bounds the end of the slice by the length of the string, so that
  SUBSTR('abcde', 1, 9223372036854775806) is 'bcde'; but in
  SUBSTR('abcde', 1, 9223372036854775807) the addition \<^verbatim>\<open>start + sublen\<close> wraps to a
  negative end, the test \<^verbatim>\<open>strlen < end\<close> does not bound it, and the slice expression
  \<^verbatim>\<open>runes[start:end]\<close> panics.
\<close>

theorem Substr_overflow_panics:
  "Substr strict_conv ''SUBSTR''
     [String (S ''abcde''), Integer 1, Integer 9223372036854775806] =
     Inr (String (S ''bcde'')) \<and>
   Substr strict_conv ''SUBSTR''
     [String (S ''abcde''), Integer 1, Integer 9223372036854775807] =
     Inl (Panic ''slice bounds out of range'')"
  by (simp add: Substr_def strict_conv_def S_def Let_def int64_def slice_def)

section \<open>Properties of INSTR\<close>

lemma index_from_none:
  "(\<forall>k. \<not> occurs_at sub s k) \<Longrightarrow> index_from s sub k0 = - 1"
proof (induction s arbitrary: k0)
  case Nil
  then have "\<not> occurs_at sub [] 0" by blast
  then show ?case by (simp add: occurs_at_def)
next
  case (Cons x xs)
  have "\<not> occurs_at sub (x # xs) 0" using Cons.prems by blast
  then have np: "\<not> prefix sub (x # xs)" by (simp add: occurs_at_def)
  have "\<forall>k. \<not> occurs_at sub xs k"
  proof
    fix k
    have "\<not> occurs_at sub (x # xs) (Suc k)" using Cons.prems by blast
    then show "\<not> occurs_at sub xs k" by (simp add: occurs_at_def)
  qed
  then show ?case using Cons.IH np by simp
qed

lemma index_from_first:
  "occurs_at sub s k \<Longrightarrow> (\<forall>j<k. \<not> occurs_at sub s j) \<Longrightarrow> index_from s sub k0 = int (k0 + k)"
proof (induction s arbitrary: k k0)
  case Nil
  then show ?case by (simp add: occurs_at_def)
next
  case (Cons x xs)
  show ?case
  proof (cases k)
    case 0
    then show ?thesis using Cons.prems(1) by (simp add: occurs_at_def)
  next
    case (Suc k')
    then have "\<not> occurs_at sub (x # xs) 0" using Cons.prems(2) by blast
    then have np: "\<not> prefix sub (x # xs)" by (simp add: occurs_at_def)
    have o: "occurs_at sub xs k'" using Cons.prems(1) Suc by (simp add: occurs_at_def)
    have "\<forall>j<k'. \<not> occurs_at sub xs j"
    proof (intro allI impI)
      fix j assume "j < k'"
      then have "\<not> occurs_at sub (x # xs) (Suc j)" using Cons.prems(2) Suc by simp
      then show "\<not> occurs_at sub xs j" by (simp add: occurs_at_def)
    qed
    then have "index_from xs sub (Suc k0) = int (Suc k0 + k')" using Cons.IH[OF o] by blast
    then show ?thesis using np Suc by simp
  qed
qed

lemma Instr_null_arg:
  assumes "length args = 2" "null_propagating cv" "Null \<in> set args"
  shows "Instr cv fn args = Inr Null"
proof -
  from assms(3) obtain k where k: "k < length args" "args ! k = Null"
    by (auto simp: in_set_conv_nth)
  with assms(1) have "k = 0 \<or> k = 1" by auto
  then show ?thesis using k assms(1,2)
    by (auto simp: Instr_def null_propagating_def Let_def split: option.splits)
qed

text \<open>
  C6. For non-null strings s and sub, INSTR(s, sub) returns the 0-based offset, counted
  in bytes of the UTF-8 encoding, of the first occurrence of sub in s; when sub does
  not occur, or when an argument is Null, the result is Null. (The instance below has
  a three-byte rune before the match: the result is 3, where the rune offset is 1.)
\<close>

theorem Instr_byte_offset:
  assumes len: "length args = 2" and np: "null_propagating cv"
  shows "(Null \<in> set args \<longrightarrow> Instr cv fn args = Inr Null) \<and>
    (\<forall>s sub. ToString cv (args ! 0) = Some s \<and> ToString cv (args ! 1) = Some sub \<longrightarrow>
       ((\<forall>k. \<not> occurs_at (utf8 sub) (utf8 s) k) \<longrightarrow> Instr cv fn args = Inr Null) \<and>
       (\<forall>k. occurs_at (utf8 sub) (utf8 s) k \<and> (\<forall>j<k. \<not> occurs_at (utf8 sub) (utf8 s) j) \<longrightarrow>
            Instr cv fn args = Inr (Integer (int k))))"
proof (intro conjI allI impI)
  assume "Null \<in> set args"
  then show "Instr cv fn args = Inr Null" by (rule Instr_null_arg[OF len np])
next
  fix s sub
  assume h: "ToString cv (args ! 0) = Some s \<and> ToString cv (args ! 1) = Some sub"
    and n: "\<forall>k. \<not> occurs_at (utf8 sub) (utf8 s) k"
  show "Instr cv fn args = Inr Null"
    using len h index_from_none[OF n, of 0] by (simp add: Instr_def Index_def)
next
  fix s sub k
  assume h: "ToString cv (args ! 0) = Some s \<and> ToString cv (args ! 1) = Some sub"
    and o: "occurs_at (utf8 sub) (utf8 s) k \<and> (\<forall>j<k. \<not> occurs_at (utf8 sub) (utf8 s) j)"
  have "index_from (utf8 s) (utf8 sub) 0 = int k"
    using index_from_first[of "utf8 sub" "utf8 s" k 0] o by simp
  then show "Instr cv fn args = Inr (Integer (int k))"
    using len h by (simp add: Instr_def Index_def)
qed

theorem Instr_byte_offset_witness:
  "null_propagating strict_conv \<and>
   utf8 [0x3042, 0x62] = [0xE3, 0x81, 0x82, 0x62] \<and>
   Instr strict_conv ''INSTR'' [String [0x3042, 0x62], String [0x62]] = Inr (Integer 3) \<and>
   Instr strict_conv ''INSTR'' [String [0x3042, 0x62], String [0x63]] = Inr Null \<and>
   Instr strict_conv ''INSTR'' [String [0x3042, 0x62], Null] = Inr Null"
proof -
  have np: "null_propagating strict_conv"
    by (simp add: null_propagating_def strict_conv_def)
  have u: "utf8 [0x3042, 0x62] = [0xE3, 0x81, 0x82, 0x62]" "utf8 [0x62] = [0x62]" "utf8 [0x63] = [0x63]"
    by (simp_all add: utf8_def utf8_rune_def)
  note th = Instr_byte_offset[of "[String [0x3042, 0x62], String [0x62]]" strict_conv "''INSTR''", OF _ np]
  have o3: "occurs_at (utf8 [0x62]) (utf8 [0x3042, 0x62]) 3 \<and>
      (\<forall>j<3. \<not> occurs_at (utf8 [0x62]) (utf8 [0x3042, 0x62]) j)"
    unfolding u by (simp add: occurs_at_def less_Suc_eq numeral_3_eq_3)
  have a: "Instr strict_conv ''INSTR'' [String [0x3042, 0x62], String [0x62]] = Inr (Integer 3)"
    using th o3 by (simp add: strict_conv_def)
  have b: "Instr strict_conv ''INSTR'' [String [0x3042, 0x62], String [0x63]] = Inr Null"
    unfolding Instr_def by (simp add: strict_conv_def u Index_def)
  have c: "Instr strict_conv ''INSTR'' [String [0x3042, 0x62], Null] = Inr Null"
    unfolding Instr_def by (simp add: strict_conv_def)
  show ?thesis using np u a b c by simp
qed

section \<open>Properties of LPAD and RPAD\<close>

lemma metric_sum: "metric te pt enc s = int (sum_list (map (rune_size te pt enc) s))"
proof -
  have "rune_size te pt enc =
      (\<lambda>r. case pt of PaddingRuneCount \<Rightarrow> 1 | PaddingByteCount \<Rightarrow> RuneByteSize te r enc
            | PaddingWidth \<Rightarrow> RuneWidth te r)"
    by (rule ext) (simp add: rune_size_def)
  then show ?thesis
    by (cases pt) (simp_all add: metric_def RuneCountInString_def ByteSize_def
        TextWidth_def sum_list_triv)
qed

lemma metric_append: "metric te pt enc (a @ b) = metric te pt enc a + metric te pt enc b"
  by (simp add: metric_sum)

lemma metric_replicate:
  "metric te pt enc (concat (replicate k s)) = int k * metric te pt enc s"
  by (induction k) (simp_all add: metric_append metric_sum algebra_simps)

lemma ceil_div_mult_ge:
  assumes "0 < (b::int)"
  shows "a \<le> \<lceil>real_of_int a / real_of_int b\<rceil> * b"
proof -
  have "real_of_int a / real_of_int b \<le> real_of_int \<lceil>real_of_int a / real_of_int b\<rceil>"
    by (rule le_of_int_ceiling)
  from mult_right_mono[OF this, of "real_of_int b"]
  have "real_of_int a \<le> real_of_int \<lceil>real_of_int a / real_of_int b\<rceil> * real_of_int b"
    using assms by simp
  then have "real_of_int a \<le> real_of_int (\<lceil>real_of_int a / real_of_int b\<rceil> * b)"
    by simp
  then show ?thesis by (simp only: of_int_le_iff)
qed

lemma sum_take_mono:
  "n \<le> m \<Longrightarrow> sum_list (map (w::'a \<Rightarrow> nat) (take n xs)) \<le> sum_list (map w (take m xs))"
proof -
  assume "n \<le> m"
  then have "take m xs = take n xs @ take (m - n) (drop n xs)"
    by (metis le_add_diff_inverse take_add)
  then show ?thesis by simp
qed

lemma pad_loop_Some:
  assumes "pad_loop w P l buf xs = Some res" "l < P" "P \<le> l + int (sum_list (map w xs))"
  shows "\<exists>n\<le>length xs. res = buf @ take n xs \<and> l + int (sum_list (map w (take n xs))) = P"
  using assms
proof (induction xs arbitrary: l buf)
  case Nil
  then show ?case by simp
next
  case (Cons r rs)
  show ?case
  proof (cases "P = l + int (w r)")
    case True
    then have "res = buf @ [r]" using Cons.prems(1) by simp
    then show ?thesis using True by (intro exI[of _ 1]) simp
  next
    case False
    then have lt: "l + int (w r) < P" and rec: "pad_loop w P (l + int (w r)) (buf @ [r]) rs = Some res"
      using Cons.prems(1) by (auto simp: Let_def split: if_splits)
    have "P \<le> l + int (w r) + int (sum_list (map w rs))" using Cons.prems(3) by simp
    from Cons.IH[OF rec lt this] obtain n where n: "n \<le> length rs"
      "res = (buf @ [r]) @ take n rs" "l + int (w r) + int (sum_list (map w (take n rs))) = P"
      by blast
    then show ?thesis by (intro exI[of _ "Suc n"]) simp
  qed
qed

lemma pad_loop_None:
  assumes "pad_loop w P l buf xs = None" "l < P"
  shows "\<exists>n<length xs. l + int (sum_list (map w (take n xs))) < P \<and>
           P < l + int (sum_list (map w (take (Suc n) xs)))"
  using assms
proof (induction xs arbitrary: l buf)
  case Nil
  then show ?case by simp
next
  case (Cons r rs)
  show ?case
  proof (cases "P < l + int (w r)")
    case True
    then show ?thesis using Cons.prems(2) by (intro exI[of _ 0]) simp
  next
    case False
    then have ne: "P \<noteq> l + int (w r)" and rec: "pad_loop w P (l + int (w r)) (buf @ [r]) rs = None"
      using Cons.prems(1) by (auto simp: Let_def split: if_splits)
    then have lt: "l + int (w r) < P" using False by simp
    from Cons.IH[OF rec lt] obtain n where n: "n < length rs"
      "l + int (w r) + int (sum_list (map w (take n rs))) < P"
      "P < l + int (w r) + int (sum_list (map w (take (Suc n) rs)))"
      by blast
    then show ?thesis by (intro exI[of _ "Suc n"]) simp
  qed
qed

lemma pad_loop_split_iff:
  assumes "0 < P" "P \<le> int (sum_list (map w xs))"
  shows "pad_loop w P 0 [] xs = None \<longleftrightarrow> would_split w P xs"
proof
  assume "pad_loop w P 0 [] xs = None"
  from pad_loop_None[OF this assms(1)] show "would_split w P xs"
    by (simp add: would_split_def)
next
  assume "would_split w P xs"
  then obtain n where n: "n < length xs" "int (sum_list (map w (take n xs))) < P"
      "P < int (sum_list (map w (take (Suc n) xs)))"
    by (auto simp: would_split_def)
  show "pad_loop w P 0 [] xs = None"
  proof (rule ccontr)
    assume "pad_loop w P 0 [] xs \<noteq> None"
    then obtain res where "pad_loop w P 0 [] xs = Some res" by auto
    from pad_loop_Some[OF this] assms obtain k where k: "int (sum_list (map w (take k xs))) = P"
      by auto
    show False
    proof (cases "k \<le> n")
      case True
      from sum_take_mono[OF this, of w xs] show False using k n(2) by simp
    next
      case False
      then have "Suc n \<le> k" by simp
      from sum_take_mono[OF this, of w xs] show False using k n(3) by simp
    qed
  qed
qed

lemma padding_unfold:
  assumes len: "3 \<le> length args" "length args \<le> 5"
    and s: "ToString cv (args ! 0) = Some str"
    and l: "ToInteger cv (args ! 1) = Some len"
    and p: "ToString cv (args ! 2) = Some padstr"
    and pt: "padType_arg te cv fn args = Inr pt"
    and enc: "enc_arg te cv fn args = Inr enc"
  shows "execStringsPadding te cv fn args dir =
     (if len \<le> metric te pt enc str then Inr (args ! 0)
      else
        (case repeat_pad padstr (len - metric te pt enc str) (metric te pt enc padstr) of
           Inl e \<Rightarrow> Inl e
         | Inr padding0 \<Rightarrow>
           (case
              (case pt of
                 PaddingRuneCount \<Rightarrow> slice padding0 0 (len - metric te pt enc str)
               | _ \<Rightarrow>
                   (case pad_loop (rune_size te pt enc) (len - metric te pt enc str) 0 [] padding0 of
                      None \<Rightarrow> Inl (FunctionInvalidArgumentError fn
                        ''cannot split pad string in a byte array of a character'')
                    | Some buf \<Rightarrow> Inr buf))
            of
              Inl e \<Rightarrow> Inl e
            | Inr padding \<Rightarrow>
                if dir = RightDirection then Inr (String (str @ padding))
                else Inr (String (padding @ str)))))"
proof -
  have "\<not> (length args < 3 \<or> 5 < length args)" using len by simp
  then show ?thesis
    unfolding execStringsPadding_def
    by (simp only: if_False s l p pt enc option.case sum.case Let_def)
qed

lemma metric_pos:
  assumes "padstr \<noteq> []"
    and "pt = PaddingRuneCount \<or> (\<exists>r\<in>set padstr. 0 < rune_size te pt enc r)"
  shows "0 < metric te pt enc padstr"
  using assms(2)
proof
  assume "pt = PaddingRuneCount"
  then show ?thesis using assms(1) by (simp add: metric_def RuneCountInString_def)
next
  assume "\<exists>r\<in>set padstr. 0 < rune_size te pt enc r"
  then obtain r where r: "r \<in> set padstr" "0 < rune_size te pt enc r" by blast
  have "rune_size te pt enc r \<le> sum_list (map (rune_size te pt enc) padstr)"
    using r(1) by (simp add: member_le_sum_list)
  then show ?thesis using r(2) by (simp add: metric_sum)
qed

text \<open>
  C4, as amended. For a non-null string, a target length and a non-empty pad string:
  LPAD and RPAD return the input unchanged when its length in the chosen metric (LEN,
  BYTE or WIDTH) is at least the target. Otherwise, when the length of the pad string
  in the metric is positive, the pad string is repeated and truncated: when the
  truncation would split a rune of the repeated pad string, which can happen for BYTE
  and for WIDTH, the result is the function-invalid-argument error; in every other
  case the result is the input with a prefix of the repeated pad string on the chosen
  side, and its length in the metric equals the target. The length of a non-empty pad
  string in the metric is positive for LEN, and for BYTE and WIDTH as soon as one of
  its runes has a positive size.
\<close>

theorem padding_reaches_target:
  assumes len: "3 \<le> length args" "length args \<le> 5"
    and s: "ToString cv (args ! 0) = Some str"
    and l: "ToInteger cv (args ! 1) = Some len"
    and p: "ToString cv (args ! 2) = Some padstr"
    and pt: "padType_arg te cv fn args = Inr pt"
    and enc: "enc_arg te cv fn args = Inr enc"
    and ne: "padstr \<noteq> []"
  shows
    "(len \<le> metric te pt enc str \<longrightarrow>
        execStringsPadding te cv fn args dir = Inr (args ! 0)) \<and>
     (metric te pt enc str < len \<and> 0 < metric te pt enc padstr \<longrightarrow>
        (let padLen = len - metric te pt enc str;
             padding = concat (replicate
               (nat \<lceil>real_of_int padLen / real_of_int (metric te pt enc padstr)\<rceil>) padstr)
         in if pt \<noteq> PaddingRuneCount \<and> would_split (rune_size te pt enc) padLen padding
            then execStringsPadding te cv fn args dir =
                   Inl (FunctionInvalidArgumentError fn
                     ''cannot split pad string in a byte array of a character'')
            else \<exists>n res. res = (if dir = RightDirection then str @ take n padding
                                 else take n padding @ str) \<and>
                   execStringsPadding te cv fn args dir = Inr (String res) \<and>
                   metric te pt enc res = len)) \<and>
     (pt = PaddingRuneCount \<or> (\<exists>r\<in>set padstr. 0 < rune_size te pt enc r) \<longrightarrow>
        0 < metric te pt enc padstr)"
proof (intro conjI impI)
  assume "len \<le> metric te pt enc str"
  then show "execStringsPadding te cv fn args dir = Inr (args ! 0)"
    by (simp add: padding_unfold[OF len s l p pt enc])
next
  assume "pt = PaddingRuneCount \<or> (\<exists>r\<in>set padstr. 0 < rune_size te pt enc r)"
  then show "0 < metric te pt enc padstr" by (rule metric_pos[OF ne])
next
  assume both: "metric te pt enc str < len \<and> 0 < metric te pt enc padstr"
  then have lt: "metric te pt enc str < len" and pos: "0 < metric te pt enc padstr"
    by simp_all
  define padLen where "padLen = len - metric te pt enc str"
  define k where "k = \<lceil>real_of_int padLen / real_of_int (metric te pt enc padstr)\<rceil>"
  define padding where "padding = concat (replicate (nat k) padstr)"
  define w where "w = rune_size te pt enc"
  have P: "0 < padLen" using lt by (simp add: padLen_def)
  have kpos: "0 \<le> k"
  proof -
    have "0 \<le> real_of_int padLen / real_of_int (metric te pt enc padstr)"
      using P pos by simp
    then show ?thesis unfolding k_def by (simp only: zero_le_ceiling)
  qed
  have rp: "repeat_pad padstr padLen (metric te pt enc padstr) = Inr padding"
    using pos by (simp add: repeat_pad_def padding_def k_def)
  have total: "padLen \<le> metric te pt enc padding"
  proof -
    have "padLen \<le> k * metric te pt enc padstr"
      unfolding k_def by (rule ceil_div_mult_ge[OF pos])
    also have "\<dots> = metric te pt enc padding"
      using kpos by (simp add: padding_def metric_replicate)
    finally show ?thesis .
  qed
  have total': "padLen \<le> int (sum_list (map w padding))"
    using total by (simp add: metric_sum w_def)
  have unf: "execStringsPadding te cv fn args dir =
        (case
           (case pt of
              PaddingRuneCount \<Rightarrow> slice padding 0 padLen
            | _ \<Rightarrow>
                (case pad_loop w padLen 0 [] padding of
                   None \<Rightarrow> Inl (FunctionInvalidArgumentError fn
                     ''cannot split pad string in a byte array of a character'')
                 | Some buf \<Rightarrow> Inr buf))
         of
           Inl e \<Rightarrow> Inl e
         | Inr padding \<Rightarrow>
             if dir = RightDirection then Inr (String (str @ padding))
             else Inr (String (padding @ str)))"
    using lt rp unfolding padLen_def w_def
    by (simp add: padding_unfold[OF len s l p pt enc])
  have finish: "\<And>n. metric te pt enc (take n padding) = padLen \<Longrightarrow>
      metric te pt enc (if dir = RightDirection then str @ take n padding
                        else take n padding @ str) = len"
    by (simp add: metric_append padLen_def)
  have goal: "if pt \<noteq> PaddingRuneCount \<and> would_split w padLen padding
      then execStringsPadding te cv fn args dir =
             Inl (FunctionInvalidArgumentError fn
               ''cannot split pad string in a byte array of a character'')
      else \<exists>n res. res = (if dir = RightDirection then str @ take n padding
                           else take n padding @ str) \<and>
             execStringsPadding te cv fn args dir = Inr (String res) \<and>
             metric te pt enc res = len"
  proof (cases "pt = PaddingRuneCount")
    case True
    have "padLen \<le> int (length padding)"
      using total True by (simp add: metric_def RuneCountInString_def)
    then have sl: "slice padding 0 padLen = Inr (take (nat padLen) padding)"
      using P by (simp add: slice_def)
    have m: "metric te pt enc (take (nat padLen) padding) = padLen"
      using True P \<open>padLen \<le> int (length padding)\<close>
      by (simp add: metric_def RuneCountInString_def)
    have "execStringsPadding te cv fn args dir =
        Inr (String (if dir = RightDirection then str @ take (nat padLen) padding
                     else take (nat padLen) padding @ str))"
      unfolding unf using True sl by simp
    then show ?thesis using True finish[OF m] by auto
  next
    case False
    then have unf2: "execStringsPadding te cv fn args dir =
        (case pad_loop w padLen 0 [] padding of
           None \<Rightarrow> Inl (FunctionInvalidArgumentError fn
                     ''cannot split pad string in a byte array of a character'')
         | Some buf \<Rightarrow>
             if dir = RightDirection then Inr (String (str @ buf))
             else Inr (String (buf @ str)))"
      unfolding unf by (cases pt) (simp_all split: option.splits)
    show ?thesis
    proof (cases "would_split w padLen padding")
      case True
      then have "pad_loop w padLen 0 [] padding = None"
        using pad_loop_split_iff[OF P total'] by simp
      then show ?thesis using True False unf2 by simp
    next
      case ns: False
      then have "pad_loop w padLen 0 [] padding \<noteq> None"
        using pad_loop_split_iff[OF P total'] by simp
      then obtain res where res: "pad_loop w padLen 0 [] padding = Some res" by auto
      from pad_loop_Some[OF res] P total' obtain n where
        n: "res = take n padding" "int (sum_list (map w (take n padding))) = padLen"
        by auto
      have m: "metric te pt enc (take n padding) = padLen"
        using n(2) by (simp add: metric_sum w_def)
      have "execStringsPadding te cv fn args dir =
        Inr (String (if dir = RightDirection then str @ take n padding
                     else take n padding @ str))"
        unfolding unf2 res n(1) by simp
      then show ?thesis using ns finish[OF m] by auto
    qed
  qed
  then show "let padLen = len - metric te pt enc str;
             padding = concat (replicate
               (nat \<lceil>real_of_int padLen / real_of_int (metric te pt enc padstr)\<rceil>) padstr)
         in if pt \<noteq> PaddingRuneCount \<and> would_split (rune_size te pt enc) padLen padding
            then execStringsPadding te cv fn args dir =
                   Inl (FunctionInvalidArgumentError fn
                     ''cannot split pad string in a byte array of a character'')
            else \<exists>n res. res = (if dir = RightDirection then str @ take n padding
                                 else take n padding @ str) \<and>
                   execStringsPadding te cv fn args dir = Inr (String res) \<and>
                   metric te pt enc res = len"
    unfolding Let_def padLen_def[symmetric] k_def[symmetric] padding_def[symmetric] w_def[symmetric]
    by simp
qed

lemmas padding_eval =
  padType_arg_def enc_arg_def metric_def TextWidth_def ByteSize_def
  RuneCountInString_def strict_conv_def sample_text_def S_def sample_upper_def

lemma rune_size_Width: "rune_size te PaddingWidth enc = RuneWidth te"
  by (rule ext) (simp add: rune_size_def)

lemma rune_size_Byte: "rune_size te PaddingByteCount enc = (\<lambda>r. RuneByteSize te r enc)"
  by (rule ext) (simp add: rune_size_def)

lemma sample_width_a: "RuneWidth sample_text 0x3042 = 2"
  by (simp add: sample_text_def)

lemma sample_bytes_a: "RuneByteSize sample_text 0x3042 UTF8 = 3"
  by (simp add: sample_text_def utf8_rune_def)

lemma sample_width_mark: "RuneWidth sample_text 0x0301 = 0"
  by (simp add: sample_text_def)

theorem padding_reaches_target_witness:
  "padType_arg sample_text strict_conv ''RPAD''
      [String (S ''a''), Integer 5, String [0x3042], String (S ''width'')] = Inr PaddingWidth \<and>
   enc_arg sample_text strict_conv ''RPAD''
      [String (S ''a''), Integer 5, String [0x3042], String (S ''width'')] = Inr UTF8 \<and>
   [0x3042] \<noteq> ([] :: gostring) \<and>
   (\<exists>r\<in>set [0x3042]. 0 < rune_size sample_text PaddingWidth UTF8 r) \<and>
   0 < metric sample_text PaddingWidth UTF8 [0x3042] \<and>
   metric sample_text PaddingWidth UTF8 (S ''a'') < 5 \<and>
   (\<exists>res. execStringsPadding sample_text strict_conv ''RPAD''
            [String (S ''a''), Integer 5, String [0x3042], String (S ''width'')] RightDirection =
            Inr (String res) \<and>
          metric sample_text PaddingWidth UTF8 res = 5) \<and>
   1 \<le> metric sample_text PaddingWidth UTF8 (S ''a'') \<and>
   execStringsPadding sample_text strict_conv ''RPAD''
     [String (S ''a''), Integer 1, String [0x3042], String (S ''width'')] RightDirection =
     Inr (String (S ''a''))"
proof -
  let ?args = "[String (S ''a''), Integer 5, String [0x3042], String (S ''width'')]"
  let ?args1 = "[String (S ''a''), Integer 1, String [0x3042], String (S ''width'')]"
  have pt: "padType_arg sample_text strict_conv ''RPAD'' ?args = Inr PaddingWidth"
    by (simp add: padding_eval)
  have enc: "enc_arg sample_text strict_conv ''RPAD'' ?args = Inr UTF8"
    by (simp add: padding_eval)
  have pt1: "padType_arg sample_text strict_conv ''RPAD'' ?args1 = Inr PaddingWidth"
    by (simp add: padding_eval)
  have enc1: "enc_arg sample_text strict_conv ''RPAD'' ?args1 = Inr UTF8"
    by (simp add: padding_eval)
  have m: "metric sample_text PaddingWidth UTF8 (S ''a'') = 1"
    by (simp add: padding_eval)
  have mp: "metric sample_text PaddingWidth UTF8 [0x3042] = 2"
    by (simp add: padding_eval)
  have ne: "[0x3042] \<noteq> ([] :: gostring)"
    by simp
  have ex: "\<exists>r\<in>set [0x3042]. 0 < rune_size sample_text PaddingWidth UTF8 r"
    by (simp add: rune_size_Width sample_width_a)
  have c: "nat \<lceil>real_of_int (5 - 1) / real_of_int 2\<rceil> = Suc (Suc 0)"
    by simp
  have ns: "\<not> would_split (rune_size sample_text PaddingWidth UTF8) (5 - 1)
               (concat (replicate (Suc (Suc 0)) [0x3042]))"
    by (simp add: would_split_def rune_size_Width sample_width_a Ex_less_Suc)
  have s: "ToString strict_conv (?args ! 0) = Some (S ''a'')"
    and l: "ToInteger strict_conv (?args ! 1) = Some 5"
    and p: "ToString strict_conv (?args ! 2) = Some [0x3042]"
    by (simp_all add: strict_conv_def)
  have s1: "ToString strict_conv (?args1 ! 0) = Some (S ''a'')"
    and l1: "ToInteger strict_conv (?args1 ! 1) = Some 1"
    and p1: "ToString strict_conv (?args1 ! 2) = Some [0x3042]"
    by (simp_all add: strict_conv_def)
  note T = padding_reaches_target[of ?args strict_conv "S ''a''" 5 "[0x3042]" sample_text
      "''RPAD''" PaddingWidth UTF8 RightDirection, OF _ _ s l p pt enc ne]
  have pos: "0 < metric sample_text PaddingWidth UTF8 [0x3042]"
    using T ex by simp
  have r: "\<exists>res. execStringsPadding sample_text strict_conv ''RPAD'' ?args RightDirection =
            Inr (String res) \<and> metric sample_text PaddingWidth UTF8 res = 5"
    using T unfolding m mp Let_def c using ns by auto
  have u: "execStringsPadding sample_text strict_conv ''RPAD'' ?args1 RightDirection =
      Inr (String (S ''a''))"
    using padding_reaches_target[of ?args1 strict_conv "S ''a''" 1 "[0x3042]" sample_text
      "''RPAD''" PaddingWidth UTF8 RightDirection, OF _ _ s1 l1 p1 pt1 enc1 ne]
    unfolding m by simp
  show ?thesis using pt enc ne ex pos m r u by simp
qed

text \<open>
  The specification has the error for BYTE only and a result for every non-empty pad
  string. With WIDTH, a pad string of one wide rune (U+3042, width 2) and one missing
  column, the result is the error, not a string of the target width. And with WIDTH
  and a pad string of one combining mark (U+0301, width 0), there is no result at all:
  \<^verbatim>\<open>strings.Repeat\<close> panics.
\<close>

theorem padding_width_counterexample:
  "metric sample_text PaddingWidth UTF8 (S ''a'') < 2 \<and>
   [0x3042] \<noteq> ([] :: gostring) \<and>
   padType_arg sample_text strict_conv ''LPAD''
     [String (S ''a''), Integer 2, String [0x3042], String (S ''WIDTH'')] = Inr PaddingWidth \<and>
   Lpad sample_text strict_conv ''LPAD''
     [String (S ''a''), Integer 2, String [0x3042], String (S ''WIDTH'')] =
     Inl (FunctionInvalidArgumentError ''LPAD''
            ''cannot split pad string in a byte array of a character'') \<and>
   [0x0301] \<noteq> ([] :: gostring) \<and>
   padType_arg sample_text strict_conv ''LPAD''
     [String (S ''a''), Integer 2, String [0x0301], String (S ''WIDTH'')] = Inr PaddingWidth \<and>
   Lpad sample_text strict_conv ''LPAD''
     [String (S ''a''), Integer 2, String [0x0301], String (S ''WIDTH'')] =
     Inl (Panic ''strings: negative Repeat count'')"
proof -
  let ?args = "[String (S ''a''), Integer 2, String [0x3042], String (S ''WIDTH'')]"
  let ?argz = "[String (S ''a''), Integer 2, String [0x0301], String (S ''WIDTH'')]"
  have pt: "padType_arg sample_text strict_conv ''LPAD'' ?args = Inr PaddingWidth"
    by (simp add: padding_eval)
  have enc: "enc_arg sample_text strict_conv ''LPAD'' ?args = Inr UTF8"
    by (simp add: padding_eval)
  have ptz: "padType_arg sample_text strict_conv ''LPAD'' ?argz = Inr PaddingWidth"
    by (simp add: padding_eval)
  have encz: "enc_arg sample_text strict_conv ''LPAD'' ?argz = Inr UTF8"
    by (simp add: padding_eval)
  have m: "metric sample_text PaddingWidth UTF8 (S ''a'') = 1"
    by (simp add: padding_eval)
  have mp: "metric sample_text PaddingWidth UTF8 [0x3042] = 2"
    by (simp add: padding_eval)
  have mz: "metric sample_text PaddingWidth UTF8 [0x0301] = 0"
    by (simp add: metric_def TextWidth_def sample_width_mark)
  have s: "ToString strict_conv (?args ! 0) = Some (S ''a'')"
    and l: "ToInteger strict_conv (?args ! 1) = Some 2"
    and p: "ToString strict_conv (?args ! 2) = Some [0x3042]"
    by (simp_all add: strict_conv_def)
  have sz: "ToString strict_conv (?argz ! 0) = Some (S ''a'')"
    and lz: "ToInteger strict_conv (?argz ! 1) = Some 2"
    and pz: "ToString strict_conv (?argz ! 2) = Some [0x0301]"
    by (simp_all add: strict_conv_def)
  have "\<lceil>(1::real) / 2\<rceil> = 1"
    by (rule ceiling_unique) simp_all
  then have c: "nat \<lceil>real_of_int 1 / real_of_int 2\<rceil> = Suc 0"
    by simp
  have rp: "repeat_pad [0x3042] 1 2 = Inr [0x3042]"
    unfolding repeat_pad_def Let_def c by simp
  have e1: "execStringsPadding sample_text strict_conv ''LPAD'' ?args LeftDirection =
     Inl (FunctionInvalidArgumentError ''LPAD''
            ''cannot split pad string in a byte array of a character'')"
    using padding_unfold[of ?args strict_conv "S ''a''" 2 "[0x3042]" sample_text "''LPAD''"
        PaddingWidth UTF8 LeftDirection, OF _ _ s l p pt enc]
    by (simp add: m mp rp rune_size_Width sample_width_a)
  have e2: "execStringsPadding sample_text strict_conv ''LPAD'' ?argz LeftDirection =
     Inl (Panic ''strings: negative Repeat count'')"
    using padding_unfold[of ?argz strict_conv "S ''a''" 2 "[0x0301]" sample_text "''LPAD''"
        PaddingWidth UTF8 LeftDirection, OF _ _ sz lz pz ptz encz]
    by (simp add: m mz repeat_pad_def)
  show ?thesis using m pt ptz e1 e2 by (simp add: Lpad_def)
qed

text \<open>
  A pad string whose length in the metric is 0 (the empty string, or runes of width 0
  under WIDTH) does not pad: \<^verbatim>\<open>strings.Repeat\<close> panics.
\<close>

lemma padding_zero_width_pad_panics:
  assumes "3 \<le> length args" "length args \<le> 5"
    and "ToString cv (args ! 0) = Some str"
    and "ToInteger cv (args ! 1) = Some len"
    and "ToString cv (args ! 2) = Some padstr"
    and "padType_arg te cv fn args = Inr pt"
    and "enc_arg te cv fn args = Inr enc"
    and "metric te pt enc padstr = 0" "metric te pt enc str < len"
  shows "execStringsPadding te cv fn args dir = Inl (Panic ''strings: negative Repeat count'')"
  using assms(8,9) by (simp add: padding_unfold[OF assms(1-7)] repeat_pad_def)

section \<open>Properties of TRUNC_TIME\<close>

lemma zeroed_time:
  "\<lparr>year = year d, month = month d, day = day d, hour = 0, minute = 0, second = 0,
     nanosecond = 0, location = location d\<rparr> =
   (d :: datetime)\<lparr>hour := 0, minute := 0, second := 0, nanosecond := 0\<rparr>"
  by simp

text \<open>
  C7. TRUNC_HOUR and TRUNC_TIME are two names of one function in the registry,
  \<^verbatim>\<open>TruncTime\<close>; for a datetime argument it returns what \<^verbatim>\<open>time.Date\<close> makes of the
  date of the argument, a zero time of day and the location of the argument. That is
  the argument with hours, minutes, seconds and nanoseconds set to zero when that
  wall-clock time exists in the location, and the time that \<^verbatim>\<open>time.Date\<close> substitutes
  when a zone transition skips it.
\<close>

theorem TruncHour_alias_TruncTime:
  "Functions te tz ml r cv ''TRUNC_HOUR'' = Some (TruncTime tz cv) \<and>
   Functions te tz ml r cv ''TRUNC_TIME'' = Some (TruncTime tz cv) \<and>
   (\<forall>a d. ToDatetime cv a = Some d \<longrightarrow>
      TruncTime tz cv fn [a] =
        Inr (Datetime (time_Date tz (year d) (month d) (day d) 0 0 0 0 (location d))) \<and>
      (\<not> skipped tz (d\<lparr>hour := 0, minute := 0, second := 0, nanosecond := 0\<rparr>) \<longrightarrow>
         TruncTime tz cv fn [a] =
           Inr (Datetime (d\<lparr>hour := 0, minute := 0, second := 0, nanosecond := 0\<rparr>))) \<and>
      (skipped tz (d\<lparr>hour := 0, minute := 0, second := 0, nanosecond := 0\<rparr>) \<longrightarrow>
         TruncTime tz cv fn [a] =
           Inr (Datetime (resolve_skipped tz
             (d\<lparr>hour := 0, minute := 0, second := 0, nanosecond := 0\<rparr>)))))"
proof (intro conjI allI impI)
  show "Functions te tz ml r cv ''TRUNC_HOUR'' = Some (TruncTime tz cv)"
    by (simp add: Functions_def)
  show "Functions te tz ml r cv ''TRUNC_TIME'' = Some (TruncTime tz cv)"
    by (simp add: Functions_def)
next
  fix a d assume "ToDatetime cv a = Some d"
  then show "TruncTime tz cv fn [a] =
      Inr (Datetime (time_Date tz (year d) (month d) (day d) 0 0 0 0 (location d)))"
    by (simp add: TruncTime_def truncateDate_def)
next
  fix a d
  assume "ToDatetime cv a = Some d"
    and "\<not> skipped tz (d\<lparr>hour := 0, minute := 0, second := 0, nanosecond := 0\<rparr>)"
  then show "TruncTime tz cv fn [a] =
      Inr (Datetime (d\<lparr>hour := 0, minute := 0, second := 0, nanosecond := 0\<rparr>))"
    by (simp add: TruncTime_def truncateDate_def time_Date_def zeroed_time)
next
  fix a d
  assume "ToDatetime cv a = Some d"
    and "skipped tz (d\<lparr>hour := 0, minute := 0, second := 0, nanosecond := 0\<rparr>)"
  then show "TruncTime tz cv fn [a] =
      Inr (Datetime (resolve_skipped tz
        (d\<lparr>hour := 0, minute := 0, second := 0, nanosecond := 0\<rparr>)))"
    by (simp add: TruncTime_def truncateDate_def time_Date_def zeroed_time)
qed

theorem TruncHour_alias_TruncTime_witness:
  "ToDatetime strict_conv
     (Datetime \<lparr>year = 2012, month = 2, day = 3, hour = 9, minute = 18, second = 15,
                nanosecond = 123456789, location = ''UTC''\<rparr>) =
     Some \<lparr>year = 2012, month = 2, day = 3, hour = 9, minute = 18, second = 15,
           nanosecond = 123456789, location = ''UTC''\<rparr> \<and>
   \<not> skipped sample_zones
     \<lparr>year = 2012, month = 2, day = 3, hour = 0, minute = 0, second = 0,
      nanosecond = 0, location = ''UTC''\<rparr> \<and>
   skipped sample_zones
     \<lparr>year = 2018, month = 11, day = 4, hour = 0, minute = 0, second = 0,
      nanosecond = 0, location = ''America/Sao_Paulo''\<rparr> \<and>
   (\<forall>ml r. case Functions sample_text sample_zones ml r strict_conv ''TRUNC_HOUR'' of
      None \<Rightarrow> False
    | Some f \<Rightarrow>
        f ''TRUNC_HOUR''
          [Datetime \<lparr>year = 2012, month = 2, day = 3, hour = 9, minute = 18, second = 15,
                     nanosecond = 123456789, location = ''UTC''\<rparr>] =
        Inr (Datetime \<lparr>year = 2012, month = 2, day = 3, hour = 0, minute = 0, second = 0,
                        nanosecond = 0, location = ''UTC''\<rparr>) \<and>
        f ''TRUNC_HOUR''
          [Datetime \<lparr>year = 2018, month = 11, day = 4, hour = 0, minute = 30, second = 0,
                     nanosecond = 0, location = ''America/Sao_Paulo''\<rparr>] =
        Inr (Datetime (resolve_skipped sample_zones
               \<lparr>year = 2018, month = 11, day = 4, hour = 0, minute = 0, second = 0,
                nanosecond = 0, location = ''America/Sao_Paulo''\<rparr>)))"
proof -
  have f: "\<And>ml r. Functions sample_text sample_zones ml r strict_conv ''TRUNC_HOUR'' =
      Some (TruncTime sample_zones strict_conv)"
    using TruncHour_alias_TruncTime[of sample_text sample_zones _ _ strict_conv] by blast
  have s1: "\<not> skipped sample_zones
     \<lparr>year = 2012, month = 2, day = 3, hour = 0, minute = 0, second = 0,
      nanosecond = 0, location = ''UTC''\<rparr>"
    by (simp add: sample_zones_def)
  have s2: "skipped sample_zones
     \<lparr>year = 2018, month = 11, day = 4, hour = 0, minute = 0, second = 0,
      nanosecond = 0, location = ''America/Sao_Paulo''\<rparr>"
    by (simp add: sample_zones_def)
  have c: "\<And>d. ToDatetime strict_conv (Datetime d) = Some d"
    by (simp add: strict_conv_def)
  have t1: "TruncTime sample_zones strict_conv ''TRUNC_HOUR''
          [Datetime \<lparr>year = 2012, month = 2, day = 3, hour = 9, minute = 18, second = 15,
                     nanosecond = 123456789, location = ''UTC''\<rparr>] =
        Inr (Datetime \<lparr>year = 2012, month = 2, day = 3, hour = 0, minute = 0, second = 0,
                        nanosecond = 0, location = ''UTC''\<rparr>)"
  proof -
    have "\<forall>a d. ToDatetime strict_conv a = Some d \<longrightarrow>
        \<not> skipped sample_zones (d\<lparr>hour := 0, minute := 0, second := 0, nanosecond := 0\<rparr>) \<longrightarrow>
        TruncTime sample_zones strict_conv ''TRUNC_HOUR'' [a] =
          Inr (Datetime (d\<lparr>hour := 0, minute := 0, second := 0, nanosecond := 0\<rparr>))"
      using TruncHour_alias_TruncTime[of sample_text sample_zones _ _ strict_conv "''TRUNC_HOUR''"]
      by blast
    from this[rule_format, OF c] s1 show ?thesis by simp
  qed
  have t2: "TruncTime sample_zones strict_conv ''TRUNC_HOUR''
          [Datetime \<lparr>year = 2018, month = 11, day = 4, hour = 0, minute = 30, second = 0,
                     nanosecond = 0, location = ''America/Sao_Paulo''\<rparr>] =
        Inr (Datetime (resolve_skipped sample_zones
               \<lparr>year = 2018, month = 11, day = 4, hour = 0, minute = 0, second = 0,
                nanosecond = 0, location = ''America/Sao_Paulo''\<rparr>))"
  proof -
    have "\<forall>a d. ToDatetime strict_conv a = Some d \<longrightarrow>
        skipped sample_zones (d\<lparr>hour := 0, minute := 0, second := 0, nanosecond := 0\<rparr>) \<longrightarrow>
        TruncTime sample_zones strict_conv ''TRUNC_HOUR'' [a] =
          Inr (Datetime (resolve_skipped sample_zones
            (d\<lparr>hour := 0, minute := 0, second := 0, nanosecond := 0\<rparr>)))"
      using TruncHour_alias_TruncTime[of sample_text sample_zones _ _ strict_conv "''TRUNC_HOUR''"]
      by blast
    from this[rule_format, OF c] s2 show ?thesis by simp
  qed
  show ?thesis by (simp only: f c s1 s2 t1 t2 option.case simp_thms)
qed

text \<open>
  In America/Sao_Paulo the day 2018-11-04 began at 01:00. TRUNC_TIME of 10:30 of that
  day is 23:00 of the day before: the date is not kept and the time of day is not zero.
\<close>

theorem TruncTime_skipped_midnight:
  "TruncTime sample_zones strict_conv ''TRUNC_TIME''
     [Datetime \<lparr>year = 2018, month = 11, day = 4, hour = 10, minute = 30, second = 0,
                nanosecond = 0, location = ''America/Sao_Paulo''\<rparr>] =
   Inr (Datetime \<lparr>year = 2018, month = 11, day = 3, hour = 23, minute = 0, second = 0,
                   nanosecond = 0, location = ''America/Sao_Paulo''\<rparr>)"
  by (simp add: TruncTime_def truncateDate_def time_Date_def strict_conv_def sample_zones_def)

section \<open>Properties of RAND\<close>

text \<open>
  What RAND does when its int64 arithmetic does not overflow: no argument gives a Float
  in \<open>[0, 1)\<close>, an argument count other than 0 and 2 the argument-length error, an
  argument that is not an integer or a second argument not above the first the
  invalid-argument error, and otherwise an Integer between the two bounds.
\<close>

lemma Rand_no_args:
  "rand_contract r \<Longrightarrow> \<exists>x. Rand r cv fn [] = Inr (Float (Finite x)) \<and> 0 \<le> x \<and> x < 1"
  by (auto simp: Rand_def rand_contract_def)

lemma Rand_arg_count:
  "length args \<noteq> 0 \<Longrightarrow> length args \<noteq> 2 \<Longrightarrow>
   Rand r cv fn args = Inl (FunctionArgumentLengthError fn [0, 2])"
  by (simp add: Rand_def)

lemma Rand_not_integer:
  "length args = 2 \<Longrightarrow> ToInteger cv (args ! 0) = None \<or> ToInteger cv (args ! 1) = None \<Longrightarrow>
   \<exists>msg. Rand r cv fn args = Inl (FunctionInvalidArgumentError fn msg)"
  by (auto simp: Rand_def split: option.splits)

lemma Rand_not_greater:
  "length args = 2 \<Longrightarrow> ToInteger cv (args ! 0) = Some lo \<Longrightarrow> ToInteger cv (args ! 1) = Some hi \<Longrightarrow>
   hi \<le> lo \<Longrightarrow> \<exists>msg. Rand r cv fn args = Inl (FunctionInvalidArgumentError fn msg)"
  by (auto simp: Rand_def)

lemma Rand_in_range:
  assumes "rand_contract r" "length args = 2"
    and "ToInteger cv (args ! 0) = Some lo" "ToInteger cv (args ! 1) = Some hi"
    and "is_int64 lo" "is_int64 hi" "lo < hi" "hi - lo < 2 ^ 63 - 1"
  shows "\<exists>n. Rand r cv fn args = Inr (Integer n) \<and> lo \<le> n \<and> n \<le> hi"
proof -
  have d1: "int64 (hi - lo) = hi - lo"
    using assms(7,8) by (intro int64_id) (simp add: is_int64_def)
  have d2: "int64 (hi - lo + 1) = hi - lo + 1"
    using assms(7,8) by (intro int64_id) (simp add: is_int64_def)
  have pos: "0 < hi - lo + 1" using assms(7) by simp
  define v where "v = draw r (hi - lo + 1)"
  have "0 \<le> draw r (hi - lo + 1) \<and> draw r (hi - lo + 1) < hi - lo + 1"
    using assms(1) pos unfolding rand_contract_def by blast
  then have v: "0 \<le> v" "v < hi - lo + 1"
    by (simp_all add: v_def)
  have d3: "int64 (v + lo) = v + lo"
    using v assms(5,6) by (intro int64_id) (simp add: is_int64_def)
  have "Rand r cv fn args = Inr (Integer (v + lo))"
    using assms(2,3,4,7) pos by (simp add: Rand_def d1 d2 Int63n_def Let_def v_def[symmetric] d3)
  then show ?thesis using v by auto
qed

text \<open>
  C8. The specification gives RAND(lo, hi), for integers \<open>lo < hi\<close>, an Integer between the
  bounds. At lo = 0 and hi = 9223372036854775807 the source's
  \<^verbatim>\<open>delta := high - low + 1\<close> wraps to the least int64 and \<^verbatim>\<open>r.Int63n(delta)\<close>
  panics.
\<close>

theorem Rand_full_range_panics:
  "is_int64 0 \<and> is_int64 9223372036854775807 \<and> (0::int) < 9223372036854775807 \<and>
   Rand r strict_conv ''RAND'' [Integer 0, Integer 9223372036854775807] =
     Inl (Panic ''invalid argument to Int63n'')"
  by (simp add: Rand_def strict_conv_def int64_def Int63n_def is_int64_def)

section \<open>Properties of the math functions\<close>

lemmas fl_eval = fl_def ilog2_def bitlen.simps round_even_def pow2_def Let_def

lemma fmul_Finite: "fmul (Finite a) (Finite b) = fl (a * b)"
  by (simp add: fmul_def)

lemma fadd_Finite: "fadd (Finite a) (Finite b) = fl (a + b)"
  by (simp add: fadd_def)

lemma fsub_Finite: "fsub (Finite a) (Finite b) = fl (a - b)"
  by (simp add: fsub_def fneg_def fadd_def)

lemma fdiv_Finite: "b \<noteq> 0 \<Longrightarrow> fdiv (Finite a) (Finite b) = fl (a / b)"
  by (simp add: fdiv_def)

lemma round_half_nonneg:
  "math_Pow10 place = pow \<Longrightarrow> \<not> flt0 f \<Longrightarrow>
   round_half f place = fdiv (math_Floor (fadd (fmul pow f) (Finite (1 / 2)))) pow"
  by (simp add: round_half_def)

lemma round_half_neg:
  "math_Pow10 place = pow \<Longrightarrow> flt0 f \<Longrightarrow>
   round_half f place = fdiv (math_Ceil (fsub (fmul pow f) (Finite (1 / 2)))) pow"
  by (simp add: round_half_def)

lemma Round_one_arg:
  "Round strict_conv fn [Float f] = Inr (ParseFloat64 (round_half f (Finite 0)))"
  by (simp add: Round_def roundParams_def strict_conv_def)

lemma Round_two_args:
  "Round strict_conv fn [Float f, Integer i] =
     Inr (ParseFloat64 (round_half f (float64_of_int i)))"
  by (simp add: Round_def roundParams_def strict_conv_def)

lemma fl_one: "fl 1 = Finite 1" by (simp add: fl_eval)
lemma fl_ten: "fl 10 = Finite 10" by (simp add: fl_eval)

lemma math_Pow10_0: "math_Pow10 (Finite 0) = Finite 1"
  by (simp add: math_Pow10_def fl_one)

lemma math_Pow10_1: "math_Pow10 (float64_of_int 1) = Finite 10"
  by (simp add: math_Pow10_def float64_of_int_def fl_one fl_ten)

text \<open>
  The examples of the spec: ROUND(2.5) = 3, ROUND(-2.5) = -3 and ROUND(2.15, 1) = 2.2,
  a literal standing for the nearest float64.
\<close>

lemma Round_2_5: "Round strict_conv ''ROUND'' [Float (fl (5 / 2))] = Inr (Integer 3)"
proof -
  have x: "fl (5 / 2) = Finite (5 / 2)" by (simp add: fl_eval)
  have n: "\<not> flt0 (Finite (5 / 2))" by (simp add: flt0_def)
  have m: "fmul (Finite 1) (Finite (5 / 2)) = Finite (5 / 2)"
    by (simp add: fmul_Finite x)
  have a: "fadd (Finite (5 / 2)) (Finite (1 / 2)) = Finite 3"
    by (simp add: fadd_Finite fl_eval)
  have f: "math_Floor (Finite 3) = Finite 3" by (simp add: math_Floor_def)
  have d: "fdiv (Finite 3) (Finite 1) = Finite 3" by (simp add: fdiv_Finite fl_eval)
  have p: "ParseFloat64 (Finite 3) = Integer 3" by (simp add: ParseFloat64_def is_int64_def)
  show ?thesis
    by (simp only: x Round_one_arg round_half_nonneg[OF math_Pow10_0 n] m a f d p)
qed

lemma Round_m_2_5: "Round strict_conv ''ROUND'' [Float (fl (- 5 / 2))] = Inr (Integer (- 3))"
proof -
  have x: "fl (- 5 / 2) = Finite (- 5 / 2)" by (simp add: fl_eval)
  have n: "flt0 (Finite (- 5 / 2))" by (simp add: flt0_def)
  have m: "fmul (Finite 1) (Finite (- 5 / 2)) = Finite (- 5 / 2)"
    using x by (simp add: fmul_Finite)
  have a: "fsub (Finite (- 5 / 2)) (Finite (1 / 2)) = Finite (- 3)"
    by (simp add: fsub_Finite fl_eval)
  have f: "math_Ceil (Finite (- 3)) = Finite (- 3)" by (simp add: math_Ceil_def)
  have d: "fdiv (Finite (- 3)) (Finite 1) = Finite (- 3)" by (simp add: fdiv_Finite fl_eval)
  have p: "ParseFloat64 (Finite (- 3)) = Integer (- 3)"
    by (simp add: ParseFloat64_def is_int64_def)
  show ?thesis
    by (simp only: x Round_one_arg round_half_neg[OF math_Pow10_0 n] m a f d p)
qed

lemma Round_2_15:
  "Round strict_conv ''ROUND'' [Float (fl (215 / 100)), Integer 1] = Inr (Float (fl (22 / 10)))"
proof -
  let ?x = "4841369599423283 / 2251799813685248 :: real"
  let ?y = "2476979795053773 / 1125899906842624 :: real"
  have x: "fl (215 / 100) = Finite ?x" by (simp add: fl_eval)
  have y: "fl (22 / 10) = Finite ?y" by (simp add: fl_eval)
  have n: "\<not> flt0 (Finite ?x)" by (simp add: flt0_def)
  have m: "fmul (Finite 10) (Finite ?x) = Finite (43 / 2)"
    by (simp add: fmul_Finite fl_eval)
  have a: "fadd (Finite (43 / 2)) (Finite (1 / 2)) = Finite 22"
    by (simp add: fadd_Finite fl_eval)
  have f: "math_Floor (Finite 22) = Finite 22" by (simp add: math_Floor_def)
  have d: "fdiv (Finite 22) (Finite 10) = Finite ?y"
    using y by (simp add: fdiv_Finite)
  have p: "ParseFloat64 (Finite ?y) = Float (Finite ?y)"
    by (simp add: ParseFloat64_def)
  show ?thesis
    by (simp only: x y Round_two_args round_half_nonneg[OF math_Pow10_1 n] m a f d p)
qed

text \<open>
  C2. The specification has ROUND round half away from zero for every numeric input. The
  literal 0.49999999999999994 is the largest float64 below one half,
  \<open>1/2 - 1/2^54\<close>; rounded to an integer it is 0. In \<^verbatim>\<open>round\<close> the sum
  \<^verbatim>\<open>pow*f + 0.5\<close> is \<open>1 - 1/2^54\<close>, which float64 addition rounds to 1, and ROUND
  returns 1.
\<close>

theorem Round_below_half_rounds_up:
  "fl (49999999999999994 / 10 ^ 17) = Finite (1 / 2 - 1 / 2 ^ 54) \<and>
   Round strict_conv ''ROUND'' [Float (fl (49999999999999994 / 10 ^ 17))] = Inr (Integer 1)"
proof -
  let ?x = "9007199254740991 / 18014398509481984 :: real"
  have x: "fl (49999999999999994 / 10 ^ 17) = Finite ?x"
    by (simp add: fl_eval)
  have x': "(1 / 2 - 1 / 2 ^ 54 :: real) = ?x" by simp
  have n: "\<not> flt0 (Finite ?x)" by (simp add: flt0_def)
  have m: "fmul (Finite 1) (Finite ?x) = Finite ?x"
    by (simp add: fmul_Finite fl_eval)
  have a: "fadd (Finite ?x) (Finite (1 / 2)) = Finite 1"
    by (simp add: fadd_Finite fl_eval)
  have f: "math_Floor (Finite 1) = Finite 1" by (simp add: math_Floor_def)
  have d: "fdiv (Finite 1) (Finite 1) = Finite 1" by (simp add: fdiv_Finite fl_one)
  have p: "ParseFloat64 (Finite 1) = Integer 1" by (simp add: ParseFloat64_def is_int64_def)
  have "Round strict_conv ''ROUND'' [Float (fl (49999999999999994 / 10 ^ 17))] = Inr (Integer 1)"
    by (simp only: x Round_one_arg round_half_nonneg[OF math_Pow10_0 n] m a f d p)
  then show ?thesis using x x' by simp
qed

text \<open>A Null argument of ROUND, CEIL and FLOOR yields Null.\<close>

lemma roundParams_null:
  assumes "length args = 1 \<or> length args = 2" "null_propagating cv" "Null \<in> set args"
  shows "\<exists>number place. roundParams cv args = (number, place, True, False)"
proof -
  from assms(3) obtain k where k: "k < length args" "args ! k = Null"
    by (auto simp: in_set_conv_nth)
  with assms(1) have "k = 0 \<or> (k = 1 \<and> length args = 2)" by auto
  then show ?thesis using k assms(1,2)
    by (auto simp: roundParams_def null_propagating_def split: option.splits)
qed

lemma Round_null_arg:
  assumes "length args = 1 \<or> length args = 2" "null_propagating cv" "Null \<in> set args"
  shows "Round cv fn args = Inr Null"
  using roundParams_null[OF assms] by (auto simp: Round_def)

lemma Ceil_null_arg:
  assumes "length args = 1 \<or> length args = 2" "null_propagating cv" "Null \<in> set args"
  shows "Ceil cv fn args = Inr Null"
  using roundParams_null[OF assms] by (auto simp: Ceil_def)

lemma Floor_null_arg:
  assumes "length args = 1 \<or> length args = 2" "null_propagating cv" "Null \<in> set args"
  shows "Floor cv fn args = Inr Null"
  using roundParams_null[OF assms] by (auto simp: Floor_def)

text \<open>
  The functions that go through \<^verbatim>\<open>execMath1Arg\<close> and \<^verbatim>\<open>execMath2Args\<close> return Null
  for a Null argument and for a result that is infinite or NaN.
\<close>

lemma execMath1Arg_null:
  "null_propagating cv \<Longrightarrow> execMath1Arg cv fn [Null] mathf = Inr Null"
  by (simp add: execMath1Arg_def null_propagating_def)

lemma execMath1Arg_nonfinite:
  "ToFloat cv a = Some f \<Longrightarrow> math_IsInf (mathf f) \<or> math_IsNaN (mathf f) \<Longrightarrow>
   execMath1Arg cv fn [a] mathf = Inr Null"
  by (simp add: execMath1Arg_def)

lemma execMath2Args_null:
  "null_propagating cv \<Longrightarrow> a = Null \<or> b = Null \<Longrightarrow> execMath2Args cv fn [a, b] mathf = Inr Null"
  by (auto simp: execMath2Args_def null_propagating_def split: option.splits)

lemma execMath2Args_nonfinite:
  "ToFloat cv a = Some f1 \<Longrightarrow> ToFloat cv b = Some f2 \<Longrightarrow>
   math_IsInf (mathf f1 f2) \<or> math_IsNaN (mathf f1 f2) \<Longrightarrow>
   execMath2Args cv fn [a, b] mathf = Inr Null"
  by (simp add: execMath2Args_def)

lemma math1_nonfinite_null:
  assumes "ToFloat cv a = Some f"
  shows "(nonfinite (math_Abs f) \<longrightarrow> Abs cv fn [a] = Inr Null) \<and>
    (nonfinite (math_Acos ml f) \<longrightarrow> Acos ml cv fn [a] = Inr Null) \<and>
    (nonfinite (math_Asin ml f) \<longrightarrow> Asin ml cv fn [a] = Inr Null) \<and>
    (nonfinite (math_Atan ml f) \<longrightarrow> Atan ml cv fn [a] = Inr Null) \<and>
    (nonfinite (math_Cos ml f) \<longrightarrow> Cos ml cv fn [a] = Inr Null) \<and>
    (nonfinite (math_Sin ml f) \<longrightarrow> Sin ml cv fn [a] = Inr Null) \<and>
    (nonfinite (math_Tan ml f) \<longrightarrow> Tan ml cv fn [a] = Inr Null) \<and>
    (nonfinite (math_Exp ml f) \<longrightarrow> Exp ml cv fn [a] = Inr Null) \<and>
    (nonfinite (math_Exp2 ml f) \<longrightarrow> Exp2 ml cv fn [a] = Inr Null) \<and>
    (nonfinite (math_Expm1 ml f) \<longrightarrow> Expm1 ml cv fn [a] = Inr Null) \<and>
    (nonfinite (math_Log ml f) \<longrightarrow> MathLog ml cv fn [a] = Inr Null) \<and>
    (nonfinite (math_Log10 ml f) \<longrightarrow> Log10 ml cv fn [a] = Inr Null) \<and>
    (nonfinite (math_Log2 ml f) \<longrightarrow> Log2 ml cv fn [a] = Inr Null) \<and>
    (nonfinite (math_Log1p ml f) \<longrightarrow> Log1p ml cv fn [a] = Inr Null) \<and>
    (nonfinite (math_Sqrt ml f) \<longrightarrow> Sqrt ml cv fn [a] = Inr Null)"
  using assms by (simp add: Abs_def Acos_def Asin_def Atan_def Cos_def Sin_def Tan_def Exp_def Exp2_def Expm1_def MathLog_def Log10_def Log2_def Log1p_def Sqrt_def execMath1Arg_def nonfinite_def)

lemma math1_null_arg:
  assumes "null_propagating cv"
  shows "Abs cv fn [Null] = Inr Null \<and>
    Acos ml cv fn [Null] = Inr Null \<and>
    Asin ml cv fn [Null] = Inr Null \<and>
    Atan ml cv fn [Null] = Inr Null \<and>
    Cos ml cv fn [Null] = Inr Null \<and>
    Sin ml cv fn [Null] = Inr Null \<and>
    Tan ml cv fn [Null] = Inr Null \<and>
    Exp ml cv fn [Null] = Inr Null \<and>
    Exp2 ml cv fn [Null] = Inr Null \<and>
    Expm1 ml cv fn [Null] = Inr Null \<and>
    MathLog ml cv fn [Null] = Inr Null \<and>
    Log10 ml cv fn [Null] = Inr Null \<and>
    Log2 ml cv fn [Null] = Inr Null \<and>
    Log1p ml cv fn [Null] = Inr Null \<and>
    Sqrt ml cv fn [Null] = Inr Null"
  using assms by (simp add: Abs_def Acos_def Asin_def Atan_def Cos_def Sin_def Tan_def Exp_def Exp2_def Expm1_def MathLog_def Log10_def Log2_def Log1p_def Sqrt_def execMath1Arg_null)

lemma math2_nonfinite_null:
  assumes "ToFloat cv a = Some f1" "ToFloat cv b = Some f2"
  shows "(nonfinite (math_Atan2 ml f1 f2) \<longrightarrow> Atan2 ml cv fn [a, b] = Inr Null) \<and>
    (nonfinite (math_Pow ml f1 f2) \<longrightarrow> Pow_f ml cv fn [a, b] = Inr Null)"
  using assms by (simp add: Atan2_def Pow_f_def execMath2Args_def nonfinite_def)

lemma math2_null_arg:
  assumes "null_propagating cv" "a = Null \<or> b = Null"
  shows "Atan2 ml cv fn [a, b] = Inr Null \<and> Pow_f ml cv fn [a, b] = Inr Null"
  using assms by (simp add: Atan2_def Pow_f_def execMath2Args_null)

text \<open>
  C5. The specification gives every math function Null for an infinite or NaN result. CEIL,
  FLOOR and ROUND do not test their result: in FLOOR(1e308, 1) the product
  \<^verbatim>\<open>pow*number\<close> overflows to \<open>+Inf\<close>, and the value returned is the Float \<open>+Inf\<close>.
\<close>

theorem Floor_overflow_returns_infinity:
  "Floor strict_conv ''FLOOR'' [Float (fl (10 ^ 308)), Integer 1] = Inr (Float PosInf) \<and>
   math_IsInf PosInf"
proof -
  let ?x = "100000000000000001097906362944045541740492309677311846336810682903157585404911491537163328978494688899061249669721172515611590283743140088328307009198146046031271664502933027185697489699588559043338384466165001178426897626212945177628091195786707458122783970171784415105291802893207873272974885715430223118336 :: real"
  have x: "fl (10 ^ 308) = Finite ?x" by (simp add: fl_eval)
  have m: "fmul (Finite 10) (Finite ?x) = PosInf"
    by (simp add: fmul_Finite fl_eval)
  have f: "math_Floor PosInf = PosInf" by (simp add: math_Floor_def)
  have d: "fdiv PosInf (Finite 10) = PosInf"
    by (simp add: fdiv_def fsign_def inf_of_def)
  have p: "ParseFloat64 PosInf = Float PosInf" by (simp add: ParseFloat64_def)
  have rp: "roundParams strict_conv [Float (Finite ?x), Integer 1] =
      (Finite ?x, float64_of_int 1, False, False)"
    by (simp add: roundParams_def strict_conv_def)
  have "Floor strict_conv ''FLOOR'' [Float (fl (10 ^ 308)), Integer 1] = Inr (Float PosInf)"
    unfolding x Floor_def rp by (simp only: prod.case if_False Let_def math_Pow10_1 m f d p)
  then show ?thesis by (simp add: math_IsInf_def)
qed

section \<open>Properties of Run\<close>

lemma call_logged_trace:
  "trace (call_logged c f st) = trace st @ [c] \<or>
   (\<exists>m. trace (call_logged c f st) = trace st @ [c, CallLogError m])"
  by (auto simp: call_logged_def log_call_def Let_def split: prod.splits option.splits)

lemma deferred_cleanup_trace:
  "\<exists>rest. trace (deferred_cleanup env st) = trace st @ CallRollback # rest \<and>
     (\<forall>c\<in>set rest. cleanup_call c)"
proof -
  define s1 where "s1 = call_logged CallRollback (Rollback env) st"
  define s2 where "s2 = call_logged CallReleaseResources (ReleaseResourcesWithErrors env) s1"
  have t: "trace (deferred_cleanup env st) = trace s2 @ [CallShowStats]"
    by (simp add: deferred_cleanup_def s1_def s2_def log_call_def)
  from call_logged_trace[of CallRollback "Rollback env" st]
  obtain r1 where r1: "trace s1 = trace st @ CallRollback # r1" "\<forall>c\<in>set r1. cleanup_call c"
    unfolding s1_def by (auto simp: cleanup_call_def)
  from call_logged_trace[of CallReleaseResources "ReleaseResourcesWithErrors env" s1]
  obtain r2 where r2: "trace s2 = trace s1 @ r2" "\<forall>c\<in>set r2. cleanup_call c"
    unfolding s2_def by (auto simp: cleanup_call_def)
  show ?thesis
    using t r1 r2 by (intro exI[of _ "r1 @ r2 @ [CallShowStats]"]) (auto simp: cleanup_call_def)
qed

lemma deferred_outfile_trace: "trace (deferred_outfile p st) = trace st"
  by (simp add: deferred_outfile_def split: option.splits)

lemma call_logged_world: "world (call_logged c f st) = snd (f (world st))"
  by (auto simp: call_logged_def log_call_def Let_def split: prod.splits option.splits)

lemma deferred_cleanup_world:
  "world (deferred_cleanup env st) = cleanup_world env (world st)"
  by (simp add: deferred_cleanup_def cleanup_world_def call_logged_world log_call_def)

lemma run_statements_result:
  assumes "run_statements env ss st = (err, st')"
  shows "\<exists>f w1 mid. Execute env ss (world st) = ((f, err), w1) \<and>
     world st' = (if err = None \<and> f = Terminate then snd (Commit env w1) else w1) \<and>
     trace st' = trace st @ mid \<and> body_calls err mid \<and> Executed f err \<in> set mid"
proof -
  obtain f e w' where ex: "Execute env ss (world st) = ((f, e), w')"
    by (metis surj_pair)
  define st1 where "st1 = log_call (Executed f e) (st\<lparr>world := w'\<rparr>)"
  have t1: "trace st1 = trace st @ [Executed f e]" by (simp add: st1_def log_call_def)
  have w1: "world st1 = w'" by (simp add: st1_def log_call_def)
  show ?thesis
  proof (cases "e = None \<and> f = Terminate")
    case True
    then have r: "err = e" "st' = call_logged CallCommit (Commit env) st1"
      using assms ex by (auto simp: run_statements_def st1_def Let_def)
    have w: "world st' = snd (Commit env w')" by (simp add: r(2) call_logged_world w1)
    from call_logged_trace[of CallCommit "Commit env" st1]
    obtain mid where mid: "trace st' = trace st @ mid" "body_calls err mid"
        "Executed f err \<in> set mid"
      using r t1 True by (auto simp: body_calls_def)
    show ?thesis using ex r(1) w mid True by auto
  next
    case False
    then have r: "err = e" "st' = st1"
      using assms ex by (auto simp: run_statements_def st1_def Let_def)
    have "body_calls err [Executed f e]" using False r(1) by (auto simp: body_calls_def)
    then show ?thesis using ex r t1 w1 False by auto
  qed
qed

lemma Run_shape:
  assumes "Run env input sourceFile outfile st = (err, st')"
  shows "(err \<noteq> None \<and> world st' = cleanup_world env (world st) \<and>
      (\<exists>rest. trace st' = trace st @ CallParse # CallRollback # rest \<and>
         (\<forall>c\<in>set rest. cleanup_call c))) \<or>
     (\<exists>ss f w1 mid rest. Parse env input sourceFile = Inr ss \<and>
        Execute env ss (exec_world env outfile (world st)) = ((f, err), w1) \<and>
        world st' = cleanup_world env (finish_outfile env outfile
          (if err = None \<and> f = Terminate then snd (Commit env w1) else w1)) \<and>
        trace st' = trace st @ CallParse # mid @ CallRollback # rest \<and>
        (\<forall>c\<in>set rest. cleanup_call c) \<and> body_calls err mid \<and> Executed f err \<in> set mid)"
proof -
  let ?A = "err \<noteq> None \<and> world st' = cleanup_world env (world st) \<and>
      (\<exists>rest. trace st' = trace st @ CallParse # CallRollback # rest \<and>
         (\<forall>c\<in>set rest. cleanup_call c))"
  let ?B = "\<exists>ss f w1 mid rest. Parse env input sourceFile = Inr ss \<and>
        Execute env ss (exec_world env outfile (world st)) = ((f, err), w1) \<and>
        world st' = cleanup_world env (finish_outfile env outfile
          (if err = None \<and> f = Terminate then snd (Commit env w1) else w1)) \<and>
        trace st' = trace st @ CallParse # mid @ CallRollback # rest \<and>
        (\<forall>c\<in>set rest. cleanup_call c) \<and> body_calls err mid \<and> Executed f err \<in> set mid"
  define s0 where "s0 = log_call CallParse st"
  have t0: "trace s0 = trace st @ [CallParse]" by (simp add: s0_def log_call_def)
  have w0: "world s0 = world st" by (simp add: s0_def log_call_def)
  have early: "\<And>e. err = Some e \<Longrightarrow> st' = deferred_cleanup env s0 \<Longrightarrow> ?A"
  proof -
    fix e assume e: "err = Some e" "st' = deferred_cleanup env s0"
    from deferred_cleanup_trace[of env s0] obtain rest where
      "trace st' = trace s0 @ CallRollback # rest" "\<forall>c\<in>set rest. cleanup_call c"
      using e by auto
    then have "\<exists>rest. trace st' = trace st @ CallParse # CallRollback # rest \<and>
         (\<forall>c\<in>set rest. cleanup_call c)"
      using t0 by auto
    moreover have "world st' = cleanup_world env (world st)"
      by (simp add: e(2) deferred_cleanup_world w0)
    ultimately show ?A using e(1) by simp
  qed
  have late: "\<And>ss s2 s3 s4. Parse env input sourceFile = Inr ss \<Longrightarrow>
      run_statements env ss s2 = (err, s3) \<Longrightarrow> trace s2 = trace s0 \<Longrightarrow>
      world s2 = exec_world env outfile (world st) \<Longrightarrow>
      trace s4 = trace s3 \<Longrightarrow> world s4 = finish_outfile env outfile (world s3) \<Longrightarrow>
      st' = deferred_cleanup env s4 \<Longrightarrow> ?B"
  proof -
    fix ss s2 s3 s4
    assume r: "Parse env input sourceFile = Inr ss"
      "run_statements env ss s2 = (err, s3)" "trace s2 = trace s0"
      "world s2 = exec_world env outfile (world st)"
      "trace s4 = trace s3" "world s4 = finish_outfile env outfile (world s3)"
      "st' = deferred_cleanup env s4"
    from run_statements_result[OF r(2)] obtain f w1 mid where
      ex: "Execute env ss (world s2) = ((f, err), w1)"
      and w3: "world s3 = (if err = None \<and> f = Terminate then snd (Commit env w1) else w1)"
      and mid: "trace s3 = trace s2 @ mid" "body_calls err mid" "Executed f err \<in> set mid"
      by blast
    from deferred_cleanup_trace[of env s4] obtain rest where
      rest: "trace (deferred_cleanup env s4) = trace s4 @ CallRollback # rest"
        "\<forall>c\<in>set rest. cleanup_call c" by blast
    have tr: "trace st' = trace st @ CallParse # mid @ CallRollback # rest"
      using t0 r(3,5,7) mid(1) rest(1) by simp
    have w: "world st' = cleanup_world env (finish_outfile env outfile
          (if err = None \<and> f = Terminate then snd (Commit env w1) else w1))"
      by (simp only: r(7) deferred_cleanup_world r(6) w3)
    have ex': "Execute env ss (exec_world env outfile (world st)) = ((f, err), w1)"
      using ex by (simp only: r(4))
    show ?B using r(1) ex' w tr rest(2) mid(2,3) by blast
  qed
  show ?thesis
  proof (cases "Parse env input sourceFile")
    case (Inl msg)
    then have "?A" using assms
      by (intro early[of "SyntaxError msg"]) (auto simp: Run_def Let_def s0_def)
    then show ?thesis by (rule disjI1)
  next
    case (Inr ss)
    show ?thesis
    proof (cases "0 < length outfile")
      case False
      obtain e2 s3 where rs: "run_statements env ss s0 = (e2, s3)" by (metis surj_pair)
      then have "err = e2" "st' = deferred_cleanup env s3"
        using assms Inr False by (auto simp: Run_def Let_def s0_def)
      then have "?B" using rs Inr False w0
        by (intro late[of ss s0 s3 s3]) (auto simp: exec_world_def finish_outfile_def)
      then show ?thesis by (rule disjI2)
    next
      case True
      define p where "p = outfile_path env outfile"
      show ?thesis
      proof (cases "files (world s0) p \<noteq> None")
        case ex: True
        then have "?A" using assms Inr True
          by (intro early[of "ErrorNew (''file '' @ p @ '' already exists'')"])
             (auto simp: Run_def Let_def s0_def[symmetric] p_def[symmetric])
        then show ?thesis by (rule disjI1)
      next
        case nex: False
        show ?thesis
        proof (cases "Create_error env p (world s0)")
          case (Some msg)
          then have "?A" using assms Inr True nex
            by (intro early[of "ErrorNew (''failed to create file: '' @ msg)"])
               (auto simp: Run_def Let_def s0_def[symmetric] p_def[symmetric])
          then show ?thesis by (rule disjI1)
        next
          case None
          define s1 where "s1 = s0\<lparr>world := create_outfile p (world s0)\<rparr>"
          obtain e2 s3 where rs: "run_statements env ss s1 = (e2, s3)" by (metis surj_pair)
          then have "err = e2" "st' = deferred_cleanup env (deferred_outfile p s3)"
            using assms Inr True nex None
            by (auto simp: Run_def Let_def s0_def[symmetric] p_def[symmetric] s1_def[symmetric])
          then have "?B" using rs Inr True w0 deferred_outfile_trace[of p s3]
            by (intro late[of ss s1 s3 "deferred_outfile p s3"])
               (auto simp: s1_def exec_world_def finish_outfile_def p_def deferred_outfile_def)
          then show ?thesis by (rule disjI2)
        qed
      qed
    qed
  qed
qed

text \<open>
  C1. A one-shot Run applies Commit to the state that the execution of the statements
  left if and only if the execution returned no error and the flow Terminate, and
  in every case it applies Rollback and then the release of the resources, last,
  to the state reached. Either no statement is executed: then Run returns an error,
  and the state at its return is the state at its call with Rollback and the release
  applied. Or the statements are executed, in the state at the call (with the output
  file created, when one is asked for): then Run returns the error of the execution,
  and the state at its return is the state that the execution left, with Commit
  applied when there was no error and the flow was Terminate and not otherwise, then
  an empty output file removed, then Rollback and the release applied. The calls that
  Run makes say the same: Commit is called if and only if the execution returned no
  error and Terminate, a Run that returns an error does not call Commit, and Rollback
  is called exactly once on every path, after any Commit.
\<close>

theorem Run_commits_iff_terminated_without_error:
  assumes "Run env input sourceFile outfile st = (err, st')"
  shows "\<exists>tr w. trace st' = trace st @ tr \<and> world st' = cleanup_world env w \<and>
     (CallCommit \<in> set tr \<longleftrightarrow> Executed Terminate None \<in> set tr) \<and>
     (\<forall>f e. Executed f e \<in> set tr \<longrightarrow> e = err) \<and>
     (err \<noteq> None \<longrightarrow> CallCommit \<notin> set tr) \<and>
     (\<exists>pre post. tr = pre @ CallRollback # post \<and> CallRollback \<notin> set pre \<and>
        CallRollback \<notin> set post \<and> CallCommit \<notin> set post) \<and>
     (((\<forall>f e. Executed f e \<notin> set tr) \<and> err \<noteq> None \<and> w = world st) \<or>
      (\<exists>statements f w1. Parse env input sourceFile = Inr statements \<and>
         Execute env statements (exec_world env outfile (world st)) = ((f, err), w1) \<and>
         Executed f err \<in> set tr \<and>
         w = finish_outfile env outfile
               (if err = None \<and> f = Terminate then snd (Commit env w1) else w1)))"
proof -
  have main: "\<exists>mid rest w. trace st' = trace st @ CallParse # mid @ CallRollback # rest \<and>
      (\<forall>c\<in>set rest. cleanup_call c) \<and> ((mid = [] \<and> err \<noteq> None) \<or> body_calls err mid) \<and>
      world st' = cleanup_world env w \<and>
      ((mid = [] \<and> err \<noteq> None \<and> w = world st) \<or>
       (\<exists>statements f w1. Parse env input sourceFile = Inr statements \<and>
         Execute env statements (exec_world env outfile (world st)) = ((f, err), w1) \<and>
         Executed f err \<in> set mid \<and>
         w = finish_outfile env outfile
               (if err = None \<and> f = Terminate then snd (Commit env w1) else w1)))"
    using Run_shape[OF assms]
  proof
    assume a: "err \<noteq> None \<and> world st' = cleanup_world env (world st) \<and>
      (\<exists>rest. trace st' = trace st @ CallParse # CallRollback # rest \<and>
         (\<forall>c\<in>set rest. cleanup_call c))"
    then obtain rest where "trace st' = trace st @ CallParse # [] @ CallRollback # rest"
      "\<forall>c\<in>set rest. cleanup_call c" by auto
    then show ?thesis using a by blast
  next
    assume "\<exists>ss f w1 mid rest. Parse env input sourceFile = Inr ss \<and>
        Execute env ss (exec_world env outfile (world st)) = ((f, err), w1) \<and>
        world st' = cleanup_world env (finish_outfile env outfile
          (if err = None \<and> f = Terminate then snd (Commit env w1) else w1)) \<and>
        trace st' = trace st @ CallParse # mid @ CallRollback # rest \<and>
        (\<forall>c\<in>set rest. cleanup_call c) \<and> body_calls err mid \<and> Executed f err \<in> set mid"
    then show ?thesis by blast
  qed
  then obtain mid rest w where
    sh: "trace st' = trace st @ CallParse # mid @ CallRollback # rest"
      "\<forall>c\<in>set rest. cleanup_call c" "(mid = [] \<and> err \<noteq> None) \<or> body_calls err mid"
    and w: "world st' = cleanup_world env w"
    and cs: "(mid = [] \<and> err \<noteq> None \<and> w = world st) \<or>
       (\<exists>statements f w1. Parse env input sourceFile = Inr statements \<and>
         Execute env statements (exec_world env outfile (world st)) = ((f, err), w1) \<and>
         Executed f err \<in> set mid \<and>
         w = finish_outfile env outfile
               (if err = None \<and> f = Terminate then snd (Commit env w1) else w1))"
    by blast
  have rest: "CallCommit \<notin> set rest" "CallRollback \<notin> set rest" "\<And>f e. Executed f e \<notin> set rest"
    using sh(2) by (auto simp: cleanup_call_def)
  have mid: "CallRollback \<notin> set mid"
    "CallCommit \<in> set mid \<longleftrightarrow> Executed Terminate None \<in> set mid"
    "\<And>f e. Executed f e \<in> set mid \<Longrightarrow> e = err"
    "err \<noteq> None \<Longrightarrow> CallCommit \<notin> set mid"
    using sh(3) by (auto simp: body_calls_def)
  let ?tr = "CallParse # mid @ CallRollback # rest"
  have a: "(CallCommit \<in> set ?tr) = (Executed Terminate None \<in> set ?tr)"
    using rest mid(2) by auto
  have b: "\<forall>f e. Executed f e \<in> set ?tr \<longrightarrow> e = err"
    using rest mid(3) by auto
  have c: "err \<noteq> None \<longrightarrow> CallCommit \<notin> set ?tr"
    using rest mid(4) by auto
  have d: "\<exists>pre post. ?tr = pre @ CallRollback # post \<and>
        CallRollback \<notin> set pre \<and> CallRollback \<notin> set post \<and> CallCommit \<notin> set post"
  proof (intro exI conjI)
    show "?tr = (CallParse # mid) @ CallRollback # rest" by simp
    show "CallRollback \<notin> set (CallParse # mid)" using mid(1) by simp
    show "CallRollback \<notin> set rest" "CallCommit \<notin> set rest" using rest by simp_all
  qed
  have e: "((\<forall>f e. Executed f e \<notin> set ?tr) \<and> err \<noteq> None \<and> w = world st) \<or>
      (\<exists>statements f w1. Parse env input sourceFile = Inr statements \<and>
         Execute env statements (exec_world env outfile (world st)) = ((f, err), w1) \<and>
         Executed f err \<in> set ?tr \<and>
         w = finish_outfile env outfile
               (if err = None \<and> f = Terminate then snd (Commit env w1) else w1))"
    using cs
  proof
    assume "mid = [] \<and> err \<noteq> None \<and> w = world st"
    then show ?thesis using rest(3) by simp
  next
    assume "\<exists>statements f w1. Parse env input sourceFile = Inr statements \<and>
         Execute env statements (exec_world env outfile (world st)) = ((f, err), w1) \<and>
         Executed f err \<in> set mid \<and>
         w = finish_outfile env outfile
               (if err = None \<and> f = Terminate then snd (Commit env w1) else w1)"
    then obtain statements f w1 where
      "Parse env input sourceFile = Inr statements"
      "Execute env statements (exec_world env outfile (world st)) = ((f, err), w1)"
      "Executed f err \<in> set mid"
      "w = finish_outfile env outfile
               (if err = None \<and> f = Terminate then snd (Commit env w1) else w1)"
      by blast
    moreover from this(3) have "Executed f err \<in> set ?tr" by simp
    ultimately show ?thesis by blast
  qed
  show ?thesis
    apply (rule exI[of _ ?tr])
    apply (rule exI[of _ w])
    using sh(1) w a b c d e apply blast
    done
qed

lemmas sample_run_defs =
  Run_def sample_env_def sample_state_def created_state_def run_statements_def log_call_def
  deferred_cleanup_def deferred_outfile_def call_logged_def sample_Execute_def
  sample_Commit_def sample_Rollback_def outfile_path_def create_outfile_def
  remove_if_empty_def Let_def

lemma sample_run_fail:
  "fst (Run sample_env ''fail'' [] [] sample_state) = Some (ExecuteError ''failed'') \<and>
   trace (snd (Run sample_env ''fail'' [] [] sample_state)) =
     [CallParse, Executed Terminate (Some (ExecuteError ''failed'')),
      CallRollback, CallReleaseResources, CallShowStats] \<and>
   files (world (snd (Run sample_env ''fail'' [] [] sample_state))) ''/t.csv'' = None \<and>
   pending (session (world (snd (Run sample_env ''fail'' [] [] sample_state)))) = []"
  by (simp add: sample_run_defs)

lemma sample_run_ok:
  "fst (Run sample_env ''ok'' [] [] sample_state) = None \<and>
   trace (snd (Run sample_env ''ok'' [] [] sample_state)) =
     [CallParse, Executed Terminate None, CallCommit,
      CallRollback, CallReleaseResources, CallShowStats] \<and>
   files (world (snd (Run sample_env ''ok'' [] [] sample_state))) ''/t.csv'' = Some ''1,2''"
  by (simp add: sample_run_defs)

theorem Run_commits_iff_terminated_without_error_witness:
  "fst (Run sample_env ''fail'' [] [] sample_state) = Some (ExecuteError ''failed'') \<and>
   trace (snd (Run sample_env ''fail'' [] [] sample_state)) =
     [CallParse, Executed Terminate (Some (ExecuteError ''failed'')),
      CallRollback, CallReleaseResources, CallShowStats] \<and>
   files (world (snd (Run sample_env ''fail'' [] [] sample_state))) ''/t.csv'' = None \<and>
   pending (session (world (snd (Run sample_env ''fail'' [] [] sample_state)))) = [] \<and>
   fst (Run sample_env ''ok'' [] [] sample_state) = None \<and>
   trace (snd (Run sample_env ''ok'' [] [] sample_state)) =
     [CallParse, Executed Terminate None, CallCommit,
      CallRollback, CallReleaseResources, CallShowStats] \<and>
   files (world (snd (Run sample_env ''ok'' [] [] sample_state))) ''/t.csv'' = Some ''1,2''"
  using Run_commits_iff_terminated_without_error[OF prod.collapse[symmetric],
      of sample_env "''fail''" "[]" "[]" sample_state]
    Run_commits_iff_terminated_without_error[OF prod.collapse[symmetric],
      of sample_env "''ok''" "[]" "[]" sample_state]
    sample_run_fail sample_run_ok
  by simp

text \<open>
  C10, as amended. When the outfile argument is not empty and names a file that
  exists, Run executes no statement and commits nothing: the state at its return is
  the state at its call with Rollback and the release of the resources applied, so
  that the content of the file is as it was when these two leave the file as it is.
  Run returns the error "file ... already exists" when the input parses, and the
  syntax error when it does not, since the input is parsed before the output file is
  looked at.
\<close>

theorem Run_existing_outfile:
  assumes ne: "0 < length outfile"
    and ex: "files (world st) (outfile_path env outfile) = Some content"
    and run: "Run env input sourceFile outfile st = (err, st')"
  shows "(case Parse env input sourceFile of
            Inl msg \<Rightarrow> err = Some (SyntaxError msg)
          | Inr statements \<Rightarrow>
              err = Some (ErrorNew (''file '' @ outfile_path env outfile @ '' already exists''))) \<and>
         (\<exists>tr. trace st' = trace st @ tr \<and> (\<forall>f e. Executed f e \<notin> set tr) \<and>
            CallCommit \<notin> set tr) \<and>
         world st' = cleanup_world env (world st) \<and>
         (files (cleanup_world env (world st)) (outfile_path env outfile) =
            files (world st) (outfile_path env outfile) \<longrightarrow>
          files (world st') (outfile_path env outfile) = Some content)"
proof -
  define p where "p = outfile_path env outfile"
  define s0 where "s0 = log_call CallParse st"
  have w0: "world s0 = world st" by (simp add: s0_def log_call_def)
  have f0: "files (world s0) p = Some content" using ex by (simp add: w0 p_def)
  have st': "st' = deferred_cleanup env s0"
    and err: "(case Parse env input sourceFile of
            Inl msg \<Rightarrow> err = Some (SyntaxError msg)
          | Inr statements \<Rightarrow> err = Some (ErrorNew (''file '' @ p @ '' already exists'')))"
    using run ne f0 unfolding Run_def Let_def s0_def[symmetric] p_def[symmetric]
    by (auto split: sum.splits)
  from deferred_cleanup_trace[of env s0] obtain rest where
    rest: "trace st' = trace s0 @ CallRollback # rest" "\<forall>c\<in>set rest. cleanup_call c"
    unfolding st' by blast
  have "trace st' = trace st @ CallParse # CallRollback # rest"
    using rest(1) by (simp add: s0_def log_call_def)
  moreover have "\<forall>f e. Executed f e \<notin> set (CallParse # CallRollback # rest)"
    "CallCommit \<notin> set (CallParse # CallRollback # rest)"
    using rest(2) by (auto simp: cleanup_call_def)
  ultimately have tr: "\<exists>tr. trace st' = trace st @ tr \<and> (\<forall>f e. Executed f e \<notin> set tr) \<and>
            CallCommit \<notin> set tr" by blast
  have w: "world st' = cleanup_world env (world st)"
    by (simp add: st' deferred_cleanup_world w0)
  have "files (cleanup_world env (world st)) p = files (world st) p \<longrightarrow>
      files (world st') p = Some content"
    using w ex by (simp add: p_def)
  then show ?thesis using err tr w unfolding p_def by blast
qed

theorem Run_existing_outfile_witness:
  "0 < length ''/out.csv'' \<and>
   files (world sample_state) (outfile_path sample_env ''/out.csv'') = Some ''a,b'' \<and>
   files (cleanup_world sample_env (world sample_state)) (outfile_path sample_env ''/out.csv'') =
     files (world sample_state) (outfile_path sample_env ''/out.csv'') \<and>
   fst (Run sample_env ''ok'' [] ''/out.csv'' sample_state) =
     Some (ErrorNew ''file /out.csv already exists'') \<and>
   files (world (snd (Run sample_env ''ok'' [] ''/out.csv'' sample_state))) ''/out.csv'' =
     Some ''a,b''"
proof -
  have p: "outfile_path sample_env ''/out.csv'' = ''/out.csv''"
    by (simp add: outfile_path_def sample_env_def)
  have ex: "files (world sample_state) (outfile_path sample_env ''/out.csv'') = Some ''a,b''"
    by (simp add: p sample_state_def)
  have cl: "files (cleanup_world sample_env (world sample_state))
        (outfile_path sample_env ''/out.csv'') =
      files (world sample_state) (outfile_path sample_env ''/out.csv'')"
    by (simp add: p cleanup_world_def sample_env_def sample_Rollback_def sample_state_def)
  have ps: "Parse sample_env ''ok'' [] = Inr [''ok'']" by (simp add: sample_env_def)
  from Run_existing_outfile[OF _ ex prod.collapse[symmetric], of "''ok''" "[]"]
  show ?thesis using ex cl by (simp add: ps p)
qed

text \<open>
  The specification gives the error "file already exists" and an unchanged file for
  every call with an existing output file. For an input that does not parse the error
  is the syntax error. And when the existing file is one that the session has created
  and not committed, the rollback that Run defers removes it.
\<close>

theorem Run_existing_outfile_counterexample:
  "0 < length ''/out.csv'' \<and>
   files (world sample_state) ''/out.csv'' = Some ''a,b'' \<and>
   fst (Run sample_env ''?'' [] ''/out.csv'' sample_state) = Some (SyntaxError ''syntax error'') \<and>
   files (world created_state) ''/out.csv'' = Some [] \<and>
   fst (Run sample_env ''ok'' [] ''/out.csv'' created_state) =
     Some (ErrorNew ''file /out.csv already exists'') \<and>
   files (world (snd (Run sample_env ''ok'' [] ''/out.csv'' created_state))) ''/out.csv'' = None"
  by (simp add: sample_run_defs)

section \<open>Properties of SET FLAG\<close>


lemmas flag_name_defs =
  RepositoryFlag_def TimezoneFlag_def DatetimeFormatFlag_def WaitTimeoutFlag_def
  DelimiterFlag_def JsonQueryFlag_def EncodingFlag_def NoHeaderFlag_def WithoutNullFlag_def
  FormatFlag_def WriteEncodingFlag_def WriteDelimiterFlag_def WithoutHeaderFlag_def
  LineBreakFlag_def EncloseAll_def JsonEscape_def PrettyPrintFlag_def
  EastAsianEncodingFlag_def CountDiacriticalSignFlag_def CountFormatCodeFlag_def ColorFlag_def
  QuietFlag_def CPUFlag_def StatsFlag_def





text \<open>A statement that succeeds does change the flag.\<close>

lemma SetFlag_sets_cpu:
  "SetFlag sample_text sample_Evaluate strict_conv sample_setters
     \<lparr>Name = S ''cpu'', Value = Expression (Integer 4)\<rparr> \<lparr>CPU = 2, Quiet = False\<rparr> =
     (None, \<lparr>CPU = 4, Quiet = False\<rparr>)"
  by (simp add: SetFlag_def flag_value_def sample_Evaluate_def convert_flag_value_def
      call_setter_def string_flags_def boolean_flags_def flag_name_defs S_def sample_text_def
      sample_upper_def strict_conv_def of_option_def sample_setters_def no_error_def)

text \<open>
  The name of a flag is compared in upper case, and the upper case of a rune outside
  ASCII may be an ASCII letter: \<open>qu\<close>, U+0131, \<open>et\<close> names the quiet flag.
\<close>

lemma SetFlag_dotless_i:
  "SetFlag sample_text sample_Evaluate strict_conv sample_setters
     \<lparr>Name = S ''qu'' @ [0x131] @ S ''et'', Value = Expression (Boolean True)\<rparr>
     \<lparr>CPU = 2, Quiet = False\<rparr> =
     (None, \<lparr>CPU = 2, Quiet = True\<rparr>)"
  by (simp add: SetFlag_def flag_value_def sample_Evaluate_def convert_flag_value_def
      call_setter_def string_flags_def boolean_flags_def flag_name_defs S_def sample_text_def
      sample_upper_def strict_conv_def of_option_def sample_setters_def no_error_def)

end
